theory Spec2Isabelle
  imports Main
begin

section \<open>JavaScript values, exceptions and strings\<close>

text \<open>
  The reminder code lives in three TypeScript modules: the check-in reminder
  (\<open>startShiftReminder\<close>/\<open>endShiftReminder\<close> keyed by \<open>checkInId\<close>), the shift
  reminder (\<open>startShiftReminder\<close>, \<open>endShiftReminder\<close>, \<open>cancelShiftReminder\<close>,
  \<open>getActiveShiftReminders\<close> over \<open>ShiftActivityData\<close>) and the transaction
  live-activity module (\<open>isLiveActivitySupported\<close>, \<open>startLiveActivity\<close>,
  \<open>updateLiveActivity\<close>, \<open>endLiveActivity\<close>, \<open>sendTransactionNotification\<close>).
  Two of them export functions of the same name; the check-in module's are
  suffixed \<open>_checkin\<close> here, the shift module's \<open>_shift\<close>.

  Numbers are modelled as \<open>int\<close>: time stamps are integral milliseconds of
  magnitude below \<open>2^53\<close>, for which the double arithmetic of the source is
  exact. \<open>NaN\<close>, the infinities and fractions are outside the model, and no
  statement below speaks for them.
\<close>

datatype jsval =
    JUndefined
  | JNull
  | JBool bool
  | JNum int
  | JStr string
  | JArr "jsval list"

text \<open>
  Modelled from the spec: the error classes \<open>ActivityError\<close> and
  \<open>NotificationError\<close>, imported from \<open>../types/errors\<close>, which is not among the
  sources. The spec's error taxonomy names them; the source constructs each
  with a message and a detail string, and they are taken to extend \<open>Error\<close>.

  The other thrown values: \<open>JsError m\<close> is an instance of \<open>Error\<close> with message
  \<open>m\<close> (\<open>TypeError\<close>, \<open>RangeError\<close> and \<open>ReferenceError\<close> included); \<open>NonError s\<close>
  is a thrown value that is not an \<open>Error\<close>, \<open>s\<close> being its \<open>String(...)\<close>
  rendering.
\<close>

datatype exn =
    JsError string
  | NonError string
  | ActivityError string string
  | NotificationError string string

text \<open>\<open>error instanceof Error ? error.message : String(error)\<close>\<close>

fun message_or_string :: "exn \<Rightarrow> string" where
  "message_or_string (JsError m) = m"
| "message_or_string (NonError s) = s"
| "message_or_string (ActivityError m d) = m"
| "message_or_string (NotificationError m d) = m"

text \<open>\<open>error instanceof Error ? error.message : 'Unknown error'\<close>\<close>

fun message_or_unknown :: "exn \<Rightarrow> string" where
  "message_or_unknown (JsError m) = m"
| "message_or_unknown (NonError s) = ''Unknown error''"
| "message_or_unknown (ActivityError m d) = m"
| "message_or_unknown (NotificationError m d) = m"

text \<open>\<open>x || d\<close> on an optional string: \<open>undefined\<close> and the empty string are falsy.\<close>

fun or_default :: "string option \<Rightarrow> string \<Rightarrow> string" where
  "or_default None d = d"
| "or_default (Some s) d = (if s = [] then d else s)"

text \<open>\<open>String.prototype.startsWith\<close> and \<open>String.prototype.includes\<close>.\<close>

fun startsWith :: "string \<Rightarrow> string \<Rightarrow> bool" where
  "startsWith s [] = True"
| "startsWith [] (p # ps) = False"
| "startsWith (c # cs) (p # ps) = (c = p \<and> startsWith cs ps)"

fun str_includes :: "string \<Rightarrow> string \<Rightarrow> bool" where
  "str_includes [] p = (p = [])"
| "str_includes (c # cs) p = (startsWith (c # cs) p \<or> str_includes cs p)"

text \<open>
  Decimal rendering of an integer: \<open>Number.prototype.toString\<close> on the integers
  of magnitude below \<open>10^21\<close> (beyond, JavaScript prints an exponent).
\<close>

definition digit_char :: "nat \<Rightarrow> char" where
  "digit_char d = ''0123456789'' ! d"

fun show_nat :: "nat \<Rightarrow> string" where
  "show_nat n = (if n < 10 then [digit_char n] else show_nat (n div 10) @ [digit_char (n mod 10)])"

declare show_nat.simps [simp del]

definition toString :: "int \<Rightarrow> string" where
  "toString i = (if i < 0 then CHR ''-'' # show_nat (nat (- i)) else show_nat (nat i))"

section \<open>Effects: a state and exception monad over an external world\<close>

text \<open>
  Every collaborator outside the three modules (the notification provider,
  the dynamically imported activity modules, the native live-activity layer,
  the clock) acts on an abstract world \<open>'w\<close>. The model threads a state made of
  that world and a trace of the calls issued, so that "which calls were made,
  with what arguments" can be stated. An \<open>await\<close> is sequential composition;
  a rejected promise or a \<open>throw\<close> is the \<open>Inl\<close> result.
\<close>

text \<open>
  A \<open>Console\<close> event carries the level and the fixed text of the message; the
  values interpolated into it are left out.
\<close>

datatype level = Log | Warn | Err

record content =
  title :: string
  body :: string
  data :: "(string \<times> jsval) list option"
  sound :: "string option"
  badge :: nat
  priority :: "string option"

record notification_request =
  notif_identifier :: string
  notif_content :: content

record activity_state =
  as_shiftId :: string
  as_time :: int
  as_employeeName :: string
  as_location :: string
  as_status :: string

datatype event =
    Console level string
  | SetTimeout nat
  | SetNotificationHandler
  | SetNotificationChannel string
  | GetPermissions
  | RequestPermissions
  | Schedule content "int option"
  | CancelScheduled string
  | GetAllScheduled
  | DismissAll
  | Import string
  | StartActivity string
  | UpdateActivity string
  | EndActivity string
  | DismissActivity string
  | DateNow int

type_synonym ('w, 'a) ext = "'w \<Rightarrow> (exn + 'a) \<times> 'w"


record permission =
  granted :: bool
  status :: string

text \<open>Arguments of the \<open>expo-activity\<close> module used by the shift module.\<close>

record start_args =
  sa_id :: string
  sa_name :: string
  sa_initialState :: activity_state
  sa_contentState :: activity_state
  sa_dismissalPolicy :: "nat \<times> nat"

record update_args =
  ua_id :: string
  ua_state :: activity_state
  ua_contentState :: activity_state

record dismiss_args =
  da_id :: string
  da_dismissalPolicy :: "nat \<times> nat"

text \<open>
  The dynamically imported modules. A function the module does not export is
  \<open>None\<close> (the source tests \<open>activityModule?.startActivity\<close> before calling).
\<close>

record 'w activity_module =
  startActivity :: "(start_args \<Rightarrow> ('w, string) ext) option"
  updateActivity :: "(update_args \<Rightarrow> ('w, unit) ext) option"
  dismissActivity :: "(dismiss_args \<Rightarrow> ('w, unit) ext) option"

record la_state =
  la_title :: string
  la_subtitle :: string
  la_amount :: int

record la_config =
  la_activityId :: string
  la_appURL :: string

record 'w live_activity_module =
  la_startActivity :: "(la_state \<Rightarrow> la_config \<Rightarrow> ('w, jsval) ext) option"
  la_endActivity :: "(string \<Rightarrow> ('w, unit) ext) option"

text \<open>The transaction module's types.\<close>

record LiveActivityAttributes =
  accountName :: string
  bankName :: string
  transactionId :: string

datatype tx_status = Pending | Processing | Completed | Failed

fun status_string :: "tx_status \<Rightarrow> string" where
  "status_string Pending = ''pending''"
| "status_string Processing = ''processing''"
| "status_string Completed = ''completed''"
| "status_string Failed = ''failed''"

record LiveActivityState =
  amount :: int
  currency :: string
  tx_status :: tx_status
  timestamp :: string
  merchantName :: "string option"
  category :: "string option"

record NotificationPayload =
  p_title :: string
  p_body :: string
  p_data :: "(string \<times> jsval) list option"
  p_sound :: "bool option"

text \<open>
  The settings of an Android notification channel that depend on the
  configuration (importance and light colour are constants of the source).
\<close>

record channel =
  ch_name :: string
  ch_vibrationPattern :: "nat list"
  ch_sound :: "string option"
  ch_enableVibrate :: bool
  ch_bypassDnd :: bool

text \<open>What \<open>window\<close> and \<open>navigator.userAgent\<close> evaluate to.\<close>

datatype browser = NoWindow | NoNavigator | UserAgent "string option"

text \<open>
  The environment: everything the modules call but do not define.
  \<open>Math_random36\<close> stands for \<open>Math.random().toString(36).substr(2, 9)\<close>.
\<close>

record 'w env =
  Platform_OS :: string
  browser :: browser
  Date_now :: "'w \<Rightarrow> int"
  elapse :: "nat \<Rightarrow> 'w \<Rightarrow> 'w"
  import_expo_activity :: "('w, 'w activity_module) ext"
  import_expo_live_activity :: "('w, 'w live_activity_module) ext"
  setNotificationHandler :: "bool \<Rightarrow> bool \<Rightarrow> ('w, unit) ext"
  setNotificationChannelAsync :: "string \<Rightarrow> channel \<Rightarrow> ('w, unit) ext"
  getPermissionsAsync :: "('w, permission) ext"
  requestPermissionsAsync :: "('w, permission) ext"
  scheduleNotificationAsync :: "content \<Rightarrow> int option \<Rightarrow> ('w, string) ext"
  cancelScheduledNotificationAsync :: "string \<Rightarrow> ('w, unit) ext"
  getAllScheduledNotificationsAsync :: "('w, notification_request list) ext"
  dismissAllNotificationsAsync :: "('w, unit) ext"
  Math_random36 :: "'w \<Rightarrow> string \<times> 'w"

text \<open>
  The state threaded through the modules: the world, the trace, and the
  check-in module's variable \<open>let LiveActivity: any\<close> (the cached import).
\<close>

record 'w state =
  ext :: 'w
  trace :: "event list"
  LiveActivity :: "'w live_activity_module option"

type_synonym ('w, 'a) io = "'w state \<Rightarrow> (exn + 'a) \<times> 'w state"

definition io_return :: "'a \<Rightarrow> ('w, 'a) io" where
  "io_return x s = (Inr x, s)"

definition io_throw :: "exn \<Rightarrow> ('w, 'a) io" where
  "io_throw e s = (Inl e, s)"

definition io_bind :: "('w, 'a) io \<Rightarrow> ('a \<Rightarrow> ('w, 'b) io) \<Rightarrow> ('w, 'b) io" where
  "io_bind m f s = (case m s of (Inl e, s') \<Rightarrow> (Inl e, s') | (Inr x, s') \<Rightarrow> f x s')"

text \<open>\<open>try { m } catch (e) { h e }\<close>\<close>

definition try_catch :: "('w, 'a) io \<Rightarrow> (exn \<Rightarrow> ('w, 'a) io) \<Rightarrow> ('w, 'a) io" where
  "try_catch m h s = (case m s of (Inl e, s') \<Rightarrow> h e s' | (Inr x, s') \<Rightarrow> (Inr x, s'))"

text \<open>A call to a collaborator: run it on the world and record the call.\<close>

definition call :: "event \<Rightarrow> ('w, 'a) ext \<Rightarrow> ('w, 'a) io" where
  "call ev f s = (case f (ext s) of (r, w') \<Rightarrow> (r, s\<lparr>ext := w', trace := trace s @ [ev]\<rparr>))"

definition console :: "level \<Rightarrow> string \<Rightarrow> ('w, unit) io" where
  "console l m s = (Inr (), s\<lparr>trace := trace s @ [Console l m]\<rparr>)"

text \<open>\<open>Date.now()\<close>: the reading is recorded in the trace.\<close>

definition now :: "'w env \<Rightarrow> ('w, int) io" where
  "now E s = (Inr (Date_now E (ext s)), s\<lparr>trace := trace s @ [DateNow (Date_now E (ext s))]\<rparr>)"

definition random36 :: "'w env \<Rightarrow> ('w, string) io" where
  "random36 E s = (case Math_random36 E (ext s) of (r, w') \<Rightarrow> (Inr r, s\<lparr>ext := w'\<rparr>))"

text \<open>A pure computation that may throw, run inside the monad.\<close>

definition io_of :: "exn + 'a \<Rightarrow> ('w, 'a) io" where
  "io_of r s = (r, s)"

text \<open>\<open>setTimeout(k, ms)\<close> followed by \<open>k\<close>: the world moves on by \<open>ms\<close>.\<close>

definition setTimeout :: "'w env \<Rightarrow> nat \<Rightarrow> ('w, unit) io" where
  "setTimeout E ms s = (Inr (), s\<lparr>ext := elapse E ms (ext s), trace := trace s @ [SetTimeout ms]\<rparr>)"

text \<open>The events a call has added to the trace.\<close>

definition new_events :: "'w state \<Rightarrow> 'w state \<Rightarrow> event list" where
  "new_events s s' = drop (length (trace s)) (trace s')"


section \<open>The capability probe\<close>

definition isDigit :: "char \<Rightarrow> bool" where
  "isDigit c = (48 \<le> (of_char c :: nat) \<and> (of_char c :: nat) \<le> 57)"

text \<open>\<open>parseInt(ds, 10)\<close> on a string of decimal digits.\<close>

definition parseInt :: "string \<Rightarrow> nat" where
  "parseInt ds = foldl (\<lambda>n c. 10 * n + (of_char c - 48)) 0 ds"

text \<open>\<open>/iPad|iPhone|iPod/.test(ua)\<close>\<close>

definition test_iOS :: "string \<Rightarrow> bool" where
  "test_iOS ua = (str_includes ua ''iPad'' \<or> str_includes ua ''iPhone'' \<or> str_includes ua ''iPod'')"

text \<open>
  \<open>ua.match(/OS (\d+)_(\d+)/)\<close>: the leftmost position at which the pattern
  matches, each \<open>\d+\<close> taking the longest run of digits (a shorter first group
  would be followed by a digit, not by the underscore).
\<close>

definition match_at :: "string \<Rightarrow> (string \<times> string) option" where
  "match_at s =
     (if startsWith s ''OS '' then
        (let r = drop 3 s; major = takeWhile isDigit r; r1 = dropWhile isDigit r in
         if major \<noteq> [] \<and> startsWith r1 ''_'' then
           (let minor = takeWhile isDigit (tl r1) in
            if minor \<noteq> [] then Some (major, minor) else None)
         else None)
      else None)"

fun match_OS_version :: "string \<Rightarrow> (string \<times> string) option" where
  "match_OS_version [] = None"
| "match_OS_version (c # cs) =
     (case match_at (c # cs) of Some m \<Rightarrow> Some m | None \<Rightarrow> match_OS_version cs)"

text \<open>
  The body of the \<open>try\<close> block. With \<open>window\<close> defined and \<open>navigator\<close> not,
  reading \<open>navigator.userAgent\<close> throws; an undefined \<open>userAgent\<close> is tested as
  the string \<open>undefined\<close>.
\<close>

fun isLiveActivitySupported_try :: "browser \<Rightarrow> exn + bool" where
  "isLiveActivitySupported_try NoWindow = Inr False"
| "isLiveActivitySupported_try NoNavigator = Inl (JsError ''navigator is not defined'')"
| "isLiveActivitySupported_try (UserAgent None) =
     (if \<not> test_iOS ''undefined'' then Inr False
      else Inl (JsError ''Cannot read properties of undefined (reading match)''))"
| "isLiveActivitySupported_try (UserAgent (Some ua)) =
     (if \<not> test_iOS ua then Inr False
      else case match_OS_version ua of
        None \<Rightarrow> Inr False
      | Some (major, minor) \<Rightarrow>
          (let majorVersion = parseInt major; minorVersion = parseInt minor in
           Inr (majorVersion > 16 \<or> (majorVersion = 16 \<and> minorVersion \<ge> 1))))"

text \<open>
  \<open>isLiveActivitySupported\<close>: the \<open>catch\<close> warns on the console and returns
  \<open>false\<close>.
\<close>

definition isLiveActivitySupported :: "'w env \<Rightarrow> ('w, bool) io" where
  "isLiveActivitySupported E =
     try_catch (io_of (isLiveActivitySupported_try (browser E)))
       (\<lambda>error.
        io_bind (console Warn ''Error checking Live Activity support:'') (\<lambda>_.
        io_return False))"

text \<open>The value the probe returns for a given \<open>window\<close> and \<open>navigator\<close>.\<close>

definition probe_value :: "browser \<Rightarrow> bool" where
  "probe_value b = (case isLiveActivitySupported_try b of Inl error \<Rightarrow> False | Inr r \<Rightarrow> r)"

section \<open>The transaction module\<close>

record handle =
  h_id :: string
  h_type :: string

text \<open>The body of the \<open>try\<close> block of \<open>sendTransactionNotification\<close>: one attempt.\<close>

definition payload_content :: "NotificationPayload \<Rightarrow> content" where
  "payload_content payload =
     \<lparr>title = p_title payload,
      body = p_body payload,
      data = Some (case p_data payload of None \<Rightarrow> [] | Some d \<Rightarrow> d),
      sound = (if p_sound payload \<noteq> Some False then Some ''default'' else None),
      badge = 1,
      priority = Some ''high''\<rparr>"

definition send_attempt :: "'w env \<Rightarrow> NotificationPayload \<Rightarrow> ('w, string) io" where
  "send_attempt E payload =
     io_bind (call GetPermissions (getPermissionsAsync E)) (\<lambda>p.
     io_bind
       (if \<not> granted p then
          io_bind (call RequestPermissions (requestPermissionsAsync E)) (\<lambda>q.
            if \<not> granted q then
              io_throw (NotificationError ''Notification permissions not granted''
                                          ''User denied notification permissions'')
            else io_return ())
        else io_return ()) (\<lambda>_.
     call (Schedule (payload_content payload) None)
          (scheduleNotificationAsync E (payload_content payload) None)))"

function sendTransactionNotification :: "'w env \<Rightarrow> NotificationPayload \<Rightarrow> bool \<Rightarrow> ('w, string) io" where
  "sendTransactionNotification E payload retry =
     try_catch (send_attempt E payload) (\<lambda>error.
       if retry then
         io_bind (console Warn ''Notification send failed, retrying in 1 second:'') (\<lambda>_.
         io_bind (setTimeout E 1000) (\<lambda>_.
         sendTransactionNotification E payload False))
       else
         io_bind (console Err ''Error in sendTransactionNotification:'') (\<lambda>_.
         io_throw (NotificationError ''Failed to send notification'' (message_or_string error))))"
  by pat_completeness auto
termination
  by (relation "measure (\<lambda>(E, payload, retry). if retry then 1 else 0)") auto

declare sendTransactionNotification.simps [simp del]

definition transaction_payload :: "LiveActivityAttributes \<Rightarrow> LiveActivityState \<Rightarrow> NotificationPayload" where
  "transaction_payload attributes st =
     \<lparr>p_title = bankName attributes @ '' - Transaction'',
      p_body = (if tx_status st = Pending then ''Processing'' else status_string (tx_status st))
               @ '' transaction of '' @ currency st @ '' '' @ toString (amount st)
               @ '' from '' @ accountName attributes,
      p_data = Some
        [(''accountName'', JStr (accountName attributes)),
         (''bankName'', JStr (bankName attributes)),
         (''transactionId'', JStr (transactionId attributes)),
         (''amount'', JNum (amount st)),
         (''currency'', JStr (currency st)),
         (''status'', JStr (status_string (tx_status st))),
         (''merchantName'', case merchantName st of None \<Rightarrow> JUndefined | Some m \<Rightarrow> JStr m),
         (''category'', case category st of None \<Rightarrow> JUndefined | Some c \<Rightarrow> JStr c)],
      p_sound = None\<rparr>"

text \<open>
  The native layer, as the source has it: three private functions that log
  and return ("would be implemented via native code ... for now, we'll simulate
  it").
\<close>

definition startNativeLiveActivity ::
    "'w env \<Rightarrow> LiveActivityAttributes \<Rightarrow> LiveActivityState \<Rightarrow> ('w, string) io" where
  "startNativeLiveActivity E attributes st =
     io_bind (now E) (\<lambda>n.
     io_bind (random36 E) (\<lambda>r.
     io_bind (console Log ''Starting Live Activity:'') (\<lambda>_.
     io_return (''activity_'' @ toString n @ ''_'' @ r))))"



definition startLiveActivity :: "'w env \<Rightarrow> LiveActivityAttributes \<Rightarrow> LiveActivityState \<Rightarrow> ('w, handle) io" where
  "startLiveActivity E attributes st =
     try_catch
       (io_bind
          (io_bind (isLiveActivitySupported E) (\<lambda>supported.
           if supported then
             try_catch
               (io_bind (startNativeLiveActivity E attributes st) (\<lambda>activityId.
                io_return (Some \<lparr>h_id = activityId, h_type = ''liveActivity''\<rparr>)))
               (\<lambda>error.
                io_bind (console Warn ''Failed to start Live Activity, falling back to notification:'') (\<lambda>_.
                io_return None))
           else io_return None)) (\<lambda>started.
        case started of
          Some r \<Rightarrow> io_return r
        | None \<Rightarrow>
            io_bind (sendTransactionNotification E (transaction_payload attributes st) True) (\<lambda>notificationId.
            io_return \<lparr>h_id = notificationId, h_type = ''notification''\<rparr>)))
       (\<lambda>error.
        io_bind (console Err ''Error in startLiveActivity:'') (\<lambda>_.
        io_throw (ActivityError ''Failed to start Live Activity or send notification''
                                (message_or_string error))))"



section \<open>The shift module\<close>

record ShiftActivityData =
  shiftId :: string
  startTime :: int
  endTime :: int
  employeeName :: "string option"
  location :: "string option"

text \<open>
  The optional configuration: for each key, \<open>None\<close> when the key is absent and
  \<open>Some v\<close> when it is present with the value \<open>v\<close>, itself \<open>None\<close> for an explicit
  \<open>undefined\<close>.
\<close>

record NotificationConfig =
  cfg_sound :: "bool option option"
  cfg_vibrate :: "bool option option"
  cfg_badge :: "bool option option"
  cfg_priority :: "string option option"

text \<open>The merged configuration: each value may be \<open>undefined\<close> (\<open>None\<close>).\<close>

record merged_config =
  mc_sound :: "bool option"
  mc_vibrate :: "bool option"
  mc_badge :: "bool option"
  mc_priority :: "string option"

record outcome =
  success :: bool
  message :: string

record reminder_result = outcome +
  activityId :: "string option"
  notificationId :: "string option"

record active_reminders =
  notifications :: "notification_request list"
  total :: nat

datatype reminder_type = Start | End

fun type_string :: "reminder_type \<Rightarrow> string" where
  "type_string Start = ''start''"
| "type_string End = ''end''"

definition getActivityModule :: "'w env \<Rightarrow> ('w, 'w activity_module option) io" where
  "getActivityModule E =
     try_catch
       (if Platform_OS E = ''ios'' then
          io_bind (call (Import ''expo-activity'') (import_expo_activity E)) (\<lambda>activityModule.
          io_return (Some activityModule))
        else io_return None)
       (\<lambda>error.
        io_bind (console Warn ''Live Activity module not available:'') (\<lambda>_.
        io_return None))"

text \<open>
  \<open>{sound: true, vibrate: true, badge: true, priority: 'high', ...config}\<close>: a
  key of \<open>config\<close> overwrites the default, also with \<open>undefined\<close>.
\<close>

fun spread :: "'a \<Rightarrow> 'a option option \<Rightarrow> 'a option" where
  "spread d None = Some d"
| "spread d (Some v) = v"

definition defaultConfig :: "NotificationConfig option \<Rightarrow> merged_config" where
  "defaultConfig config =
     (case config of
        None \<Rightarrow> \<lparr>mc_sound = Some True, mc_vibrate = Some True, mc_badge = Some True,
                 mc_priority = Some ''high''\<rparr>
      | Some c \<Rightarrow>
          \<lparr>mc_sound = spread True (cfg_sound c),
           mc_vibrate = spread True (cfg_vibrate c),
           mc_badge = spread True (cfg_badge c),
           mc_priority = spread ''high'' (cfg_priority c)\<rparr>)"

text \<open>\<open>x ?? true\<close>\<close>

fun or_true :: "bool option \<Rightarrow> bool" where
  "or_true None = True"
| "or_true (Some b) = b"

definition configureNotifications_shift :: "'w env \<Rightarrow> NotificationConfig option \<Rightarrow> ('w, unit) io" where
  "configureNotifications_shift E config =
     try_catch
       (let dc = defaultConfig config in
        io_bind (call SetNotificationHandler
                   (setNotificationHandler E (or_true (mc_sound dc)) (or_true (mc_badge dc)))) (\<lambda>_.
        io_bind
          (if Platform_OS E = ''android'' then
             io_bind (call (SetNotificationChannel ''shift-reminders'')
                        (setNotificationChannelAsync E ''shift-reminders''
                           \<lparr>ch_name = ''Shift Reminders'',
                            ch_vibrationPattern = (if mc_vibrate dc = Some True then [0, 250, 250, 250] else [0]),
                            ch_sound = (if mc_sound dc = Some True then Some ''default'' else None),
                            ch_enableVibrate = or_true (mc_vibrate dc),
                            ch_bypassDnd = (mc_priority dc = Some ''max'')\<rparr>)) (\<lambda>_.
             call (SetNotificationChannel ''shift-alerts'')
               (setNotificationChannelAsync E ''shift-alerts''
                  \<lparr>ch_name = ''Shift Alerts'',
                   ch_vibrationPattern = [0, 500, 250, 500],
                   ch_sound = (if mc_sound dc = Some True then Some ''default'' else None),
                   ch_enableVibrate = or_true (mc_vibrate dc),
                   ch_bypassDnd = (mc_priority dc = Some ''max'')\<rparr>))
           else io_return ()) (\<lambda>_.
        console Log ''Notifications configured successfully'')))
       (\<lambda>error.
        io_bind (console Err ''Failed to configure notifications:'') (\<lambda>_.
        io_throw error))"

text \<open>
  \<open>new Date(t).toISOString()\<close> throws a \<open>RangeError\<close> outside the range of
  dates; inside, the ISO string is represented by the instant it denotes.
\<close>

definition toISOString :: "int \<Rightarrow> ('w, int) io" where
  "toISOString t =
     (if \<bar>t\<bar> \<le> 8640000000000000 then io_return t else io_throw (JsError ''Invalid time value''))"

definition shift_state :: "ShiftActivityData \<Rightarrow> int \<Rightarrow> string \<Rightarrow> activity_state" where
  "shift_state activityData isoTime st =
     \<lparr>as_shiftId = shiftId activityData,
      as_time = isoTime,
      as_employeeName = or_default (employeeName activityData) ''Shift'',
      as_location = or_default (location activityData) ''Not specified'',
      as_status = st\<rparr>"

text \<open>
  \<open>Math.max(1, Math.floor((t - Date.now()) / 1000) - 900)\<close>, on integral
  milliseconds (for \<open>t = NaN\<close> the source computes \<open>NaN\<close>, which is outside the
  model).
\<close>

definition triggerSeconds :: "int \<Rightarrow> int \<Rightarrow> int" where
  "triggerSeconds t now_ms = max 1 ((t - now_ms) div 1000 - 900)"

definition start_content :: "ShiftActivityData \<Rightarrow> content" where
  "start_content activityData =
     \<lparr>title = ''Shift Starting Soon'',
      body = ''Your shift at '' @ or_default (location activityData) ''your workplace''
             @ '' starts in 15 minutes'',
      data = Some [(''shiftId'', JStr (shiftId activityData)),
                   (''type'', JStr ''shift-reminder''),
                   (''startTime'', JStr (toString (startTime activityData)))],
      sound = Some ''default'',
      badge = 1,
      priority = None\<rparr>"

text \<open>The body of the inner \<open>try\<close> of \<open>startShiftReminder\<close>: the Live Activity attempt.\<close>

definition shift_start_attempt :: "'w env \<Rightarrow> ShiftActivityData \<Rightarrow> ('w, reminder_result option) io" where
  "shift_start_attempt E activityData =
     io_bind (getActivityModule E) (\<lambda>activityModule.
     case (case activityModule of None \<Rightarrow> None | Some m \<Rightarrow> startActivity m) of
       Some start \<Rightarrow>
         io_bind (toISOString (startTime activityData)) (\<lambda>isoTime.
         io_bind (call (StartActivity (''shift-start-'' @ shiftId activityData))
                    (start \<lparr>sa_id = ''shift-start-'' @ shiftId activityData,
                            sa_name = ''ShiftReminderActivity'',
                            sa_initialState = shift_state activityData isoTime ''upcoming'',
                            sa_contentState = shift_state activityData isoTime ''upcoming'',
                            sa_dismissalPolicy = (5 * 60, 60)\<rparr>)) (\<lambda>aid.
         io_bind (console Log ''Live Activity started:'') (\<lambda>_.
         io_return (Some \<lparr>success = True,
                          message = ''Shift reminder started via Live Activity'',
                          activityId = Some aid, notificationId = None\<rparr>))))
     | None \<Rightarrow> io_return None)"

definition startShiftReminder_shift :: "'w env \<Rightarrow> ShiftActivityData \<Rightarrow> ('w, reminder_result) io" where
  "startShiftReminder_shift E activityData =
     try_catch
       (io_bind (configureNotifications_shift E None) (\<lambda>_.
        io_bind
          (if Platform_OS E = ''ios'' then
             try_catch (shift_start_attempt E activityData)
               (\<lambda>liveActivityError.
                io_bind (console Warn ''Live Activity not available, falling back to notifications:'') (\<lambda>_.
                io_return None))
           else io_return None) (\<lambda>returned.
        case returned of
          Some r \<Rightarrow> io_return r
        | None \<Rightarrow>
            io_bind (now E) (\<lambda>n.
            io_bind (call (Schedule (start_content activityData)
                             (Some (triggerSeconds (startTime activityData) n)))
                       (scheduleNotificationAsync E (start_content activityData)
                             (Some (triggerSeconds (startTime activityData) n)))) (\<lambda>nid.
            io_bind (console Log ''Shift reminder notification scheduled:'') (\<lambda>_.
            io_return \<lparr>success = True,
                       message = ''Shift reminder scheduled via notification'',
                       activityId = None, notificationId = Some nid\<rparr>))))))
       (\<lambda>error.
        io_bind (console Err ''Failed to start shift reminder:'') (\<lambda>_.
        io_return \<lparr>success = False,
                   message = ''Failed to start shift reminder: '' @ message_or_unknown error,
                   activityId = None, notificationId = None\<rparr>))"

definition end_content :: "ShiftActivityData \<Rightarrow> content" where
  "end_content activityData =
     \<lparr>title = ''Shift Ending Soon'',
      body = ''Your shift at '' @ or_default (location activityData) ''your workplace''
             @ '' will end in 15 minutes'',
      data = Some [(''shiftId'', JStr (shiftId activityData)),
                   (''type'', JStr ''shift-end-reminder''),
                   (''endTime'', JStr (toString (endTime activityData)))],
      sound = Some ''default'',
      badge = 1,
      priority = None\<rparr>"

text \<open>The body of the inner \<open>try\<close> of \<open>endShiftReminder\<close>: update, else create.\<close>

definition shift_end_attempt :: "'w env \<Rightarrow> ShiftActivityData \<Rightarrow> ('w, reminder_result option) io" where
  "shift_end_attempt E activityData =
     io_bind (getActivityModule E) (\<lambda>activityModule.
     case activityModule of
       None \<Rightarrow> io_return None
     | Some m \<Rightarrow>
         if startActivity m \<noteq> None \<or> updateActivity m \<noteq> None then
           (let aid = ''shift-end-'' @ shiftId activityData in
            case updateActivity m of
              Some update \<Rightarrow>
                io_bind (toISOString (endTime activityData)) (\<lambda>isoTime.
                io_bind (call (UpdateActivity aid)
                           (update \<lparr>ua_id = aid,
                                    ua_state = shift_state activityData isoTime ''ending-soon'',
                                    ua_contentState = shift_state activityData isoTime ''ending-soon''\<rparr>)) (\<lambda>_.
                io_bind (console Log ''Live Activity updated:'') (\<lambda>_.
                io_return (Some \<lparr>success = True,
                                 message = ''Shift reminder updated via Live Activity'',
                                 activityId = Some aid, notificationId = None\<rparr>))))
            | None \<Rightarrow>
                (case startActivity m of
                   Some start \<Rightarrow>
                     io_bind (toISOString (endTime activityData)) (\<lambda>isoTime.
                     io_bind (call (StartActivity aid)
                                (start \<lparr>sa_id = aid,
                                        sa_name = ''ShiftEndReminderActivity'',
                                        sa_initialState = shift_state activityData isoTime ''ending-soon'',
                                        sa_contentState = shift_state activityData isoTime ''ending-soon'',
                                        sa_dismissalPolicy = (3 * 60, 30)\<rparr>)) (\<lambda>newActivityId.
                     io_bind (console Log ''Live Activity created:'') (\<lambda>_.
                     io_return (Some \<lparr>success = True,
                                      message = ''End shift reminder started via Live Activity'',
                                      activityId = Some newActivityId, notificationId = None\<rparr>))))
                 | None \<Rightarrow> io_return None))
         else io_return None)"

definition endShiftReminder_shift :: "'w env \<Rightarrow> ShiftActivityData \<Rightarrow> ('w, reminder_result) io" where
  "endShiftReminder_shift E activityData =
     try_catch
       (io_bind (configureNotifications_shift E None) (\<lambda>_.
        io_bind
          (if Platform_OS E = ''ios'' then
             try_catch (shift_end_attempt E activityData)
               (\<lambda>liveActivityError.
                io_bind (console Warn ''Live Activity update failed, falling back to notifications:'') (\<lambda>_.
                io_return None))
           else io_return None) (\<lambda>returned.
        case returned of
          Some r \<Rightarrow> io_return r
        | None \<Rightarrow>
            io_bind (now E) (\<lambda>n.
            io_bind (call (Schedule (end_content activityData)
                             (Some (triggerSeconds (endTime activityData) n)))
                       (scheduleNotificationAsync E (end_content activityData)
                             (Some (triggerSeconds (endTime activityData) n)))) (\<lambda>nid.
            io_bind (console Log ''End shift reminder notification scheduled:'') (\<lambda>_.
            io_return \<lparr>success = True,
                       message = ''End shift reminder scheduled via notification'',
                       activityId = None, notificationId = Some nid\<rparr>))))))
       (\<lambda>error.
        io_bind (console Err ''Failed to end shift reminder:'') (\<lambda>_.
        io_return \<lparr>success = False,
                   message = ''Failed to end shift reminder: '' @ message_or_unknown error,
                   activityId = None, notificationId = None\<rparr>))"

text \<open>\<open>notif.content.data?.key\<close>\<close>

definition data_field :: "notification_request \<Rightarrow> string \<Rightarrow> jsval" where
  "data_field notif key =
     (case data (notif_content notif) of
        None \<Rightarrow> JUndefined
      | Some kvs \<Rightarrow> (case map_of kvs key of None \<Rightarrow> JUndefined | Some v \<Rightarrow> v))"

text \<open>The \<open>for\<close> loop over the relevant notifications.\<close>

fun cancel_each :: "'w env \<Rightarrow> notification_request list \<Rightarrow> ('w, unit) io" where
  "cancel_each E [] = io_return ()"
| "cancel_each E (notif # rest) =
     io_bind (call (CancelScheduled (notif_identifier notif))
                (cancelScheduledNotificationAsync E (notif_identifier notif))) (\<lambda>_.
     cancel_each E rest)"

text \<open>
  The first half of \<open>cancelShiftReminder\<close>: on iOS, dismiss the Live Activity;
  \<open>Some r\<close> is the early \<open>return r\<close>, \<open>None\<close> falls through to the notifications.
\<close>

definition dismiss_attempt :: "'w env \<Rightarrow> string \<Rightarrow> reminder_type \<Rightarrow> ('w, outcome option) io" where
  "dismiss_attempt E sid ty =
     io_bind (getActivityModule E) (\<lambda>activityModule.
     case (case activityModule of None \<Rightarrow> None | Some m \<Rightarrow> dismissActivity m) of
       Some dismiss \<Rightarrow>
         (let aid = ''shift-'' @ type_string ty @ ''-'' @ sid in
          io_bind (call (DismissActivity aid)
                     (dismiss \<lparr>da_id = aid, da_dismissalPolicy = (0, 0)\<rparr>)) (\<lambda>_.
          io_bind (console Log ''Live Activity dismissed:'') (\<lambda>_.
          io_return (Some \<lparr>success = True,
                           message = ''Shift reminder cancelled via Live Activity''\<rparr>))))
     | None \<Rightarrow> io_return None)"

definition dismiss_live_activity :: "'w env \<Rightarrow> string \<Rightarrow> reminder_type \<Rightarrow> ('w, outcome option) io" where
  "dismiss_live_activity E sid ty =
     (if Platform_OS E = ''ios'' then
        try_catch (dismiss_attempt E sid ty)
          (\<lambda>error.
           io_bind (console Warn ''Failed to dismiss Live Activity:'') (\<lambda>_.
           io_return None))
      else io_return None)"

text \<open>The second half: cancel the scheduled notifications that carry the shift id.\<close>

definition relevant :: "string \<Rightarrow> notification_request list \<Rightarrow> notification_request list" where
  "relevant sid allNotifications =
     filter (\<lambda>notif. data_field notif ''shiftId'' = JStr sid) allNotifications"

definition cancel_notifications :: "'w env \<Rightarrow> string \<Rightarrow> ('w, outcome) io" where
  "cancel_notifications E sid =
     io_bind (call GetAllScheduled (getAllScheduledNotificationsAsync E)) (\<lambda>allNotifications.
     io_bind (cancel_each E (relevant sid allNotifications)) (\<lambda>_.
     io_bind (console Log ''Cancelled notifications for shift'') (\<lambda>_.
     io_return \<lparr>success = True,
                message = ''Shift reminder cancelled (''
                          @ toString (int (length (relevant sid allNotifications)))
                          @ '' notifications removed)''\<rparr>)))"

definition cancelShiftReminder :: "'w env \<Rightarrow> string \<Rightarrow> reminder_type \<Rightarrow> ('w, outcome) io" where
  "cancelShiftReminder E sid ty =
     try_catch
       (io_bind (dismiss_live_activity E sid ty) (\<lambda>returned.
        case returned of
          Some r \<Rightarrow> io_return r
        | None \<Rightarrow> cancel_notifications E sid))
       (\<lambda>error.
        io_bind (console Err ''Failed to cancel shift reminder:'') (\<lambda>_.
        io_return \<lparr>success = False,
                   message = ''Failed to cancel shift reminder: '' @ message_or_unknown error\<rparr>))"

text \<open>
  \<open>notif.content.data?.type?.includes('shift')\<close>: undefined when \<open>data\<close> or
  \<open>type\<close> is missing, a substring test on a string, membership on an array,
  and a \<open>TypeError\<close> on a number or a boolean (no \<open>includes\<close> to call).
\<close>

definition type_includes_shift :: "notification_request \<Rightarrow> ('w, bool) io" where
  "type_includes_shift notif =
     (case data_field notif ''type'' of
        JUndefined \<Rightarrow> io_return False
      | JNull \<Rightarrow> io_return False
      | JStr t \<Rightarrow> io_return (str_includes t ''shift'')
      | JArr xs \<Rightarrow> io_return (JStr ''shift'' \<in> set xs)
      | JBool b \<Rightarrow> io_throw (JsError ''includes is not a function'')
      | JNum n \<Rightarrow> io_throw (JsError ''includes is not a function''))"

fun filter_shift :: "notification_request list \<Rightarrow> ('w, notification_request list) io" where
  "filter_shift [] = io_return []"
| "filter_shift (notif # rest) =
     io_bind (type_includes_shift notif) (\<lambda>keep.
     io_bind (filter_shift rest) (\<lambda>kept.
     io_return (if keep then notif # kept else kept)))"

definition getActiveShiftReminders :: "'w env \<Rightarrow> ('w, active_reminders) io" where
  "getActiveShiftReminders E =
     try_catch
       (io_bind (call GetAllScheduled (getAllScheduledNotificationsAsync E)) (\<lambda>ns.
        io_bind (filter_shift ns) (\<lambda>shiftNotifications.
        io_bind (console Log ''Retrieved active shift reminders'') (\<lambda>_.
        io_return \<lparr>notifications = shiftNotifications,
                   total = length shiftNotifications\<rparr>))))
       (\<lambda>error.
        io_bind (console Err ''Failed to get active shift reminders:'') (\<lambda>_.
        io_return \<lparr>notifications = [], total = 0\<rparr>))"

section \<open>The check-in module\<close>

record shiftData =
  sd_title :: "string option"
  sd_subtitle :: "string option"
  sd_amount :: "int option"

text \<open>\<open>LiveActivity = LiveActivity ?? (await import('expo-live-activity'))\<close>\<close>

definition load_LiveActivity :: "'w env \<Rightarrow> ('w, 'w live_activity_module) io" where
  "load_LiveActivity E s =
     (case LiveActivity s of
        Some m \<Rightarrow> (Inr m, s)
      | None \<Rightarrow>
          (case call (Import ''expo-live-activity'') (import_expo_live_activity E) s of
             (Inl e, s') \<Rightarrow> (Inl e, s')
           | (Inr m, s') \<Rightarrow> (Inr m, s'\<lparr>LiveActivity := Some m\<rparr>)))"

definition sd_field :: "shiftData option \<Rightarrow> (shiftData \<Rightarrow> 'a option) \<Rightarrow> 'a option" where
  "sd_field sd f = (case sd of None \<Rightarrow> None | Some d \<Rightarrow> f d)"

definition checkin_content :: "string \<Rightarrow> shiftData option \<Rightarrow> content" where
  "checkin_content checkInId sd =
     \<lparr>title = or_default (sd_field sd sd_title) ''Shift Active: Deposit the bank!'',
      body = or_default (sd_field sd sd_subtitle)
               ''Tap to complete your deposit and mark the shift as finished.'',
      data = Some [(''checkInId'', JStr checkInId), (''type'', JStr ''shift_reminder'')],
      sound = Some ''default'',
      badge = 1,
      priority = None\<rparr>"

text \<open>The body of the inner \<open>try\<close>: the Live Activity attempt.\<close>

definition checkin_start_attempt :: "'w env \<Rightarrow> string \<Rightarrow> shiftData option \<Rightarrow> ('w, handle option) io" where
  "checkin_start_attempt E checkInId sd =
     io_bind (load_LiveActivity E) (\<lambda>m.
     case la_startActivity m of
       Some start \<Rightarrow>
         io_bind (call (StartActivity checkInId)
                    (start \<lparr>la_title = or_default (sd_field sd sd_title) ''Shift Active'',
                            la_subtitle = or_default (sd_field sd sd_subtitle)
                                            ''Deposit the bank before leaving!'',
                            la_amount = (case sd_field sd sd_amount of None \<Rightarrow> 0 | Some a \<Rightarrow> a)\<rparr>
                           \<lparr>la_activityId = checkInId,
                            la_appURL = ''hotelbanktrackertracker://complete-deposit?checkInId=''
                                        @ checkInId\<rparr>)) (\<lambda>result.
         io_bind (console Log ''Live Activity started:'') (\<lambda>_.
         io_return (Some \<lparr>h_id = checkInId, h_type = ''live-activity''\<rparr>)))
     | None \<Rightarrow> io_return None)"

definition startShiftReminder_checkin :: "'w env \<Rightarrow> string \<Rightarrow> shiftData option \<Rightarrow> ('w, handle) io" where
  "startShiftReminder_checkin E checkInId sd =
     try_catch
       (io_bind
          (if Platform_OS E = ''ios'' then
             try_catch (checkin_start_attempt E checkInId sd)
               (\<lambda>liveActivityError.
                io_bind (console Warn ''Live Activity not available (running in Expo Go?), falling back to notifications:'') (\<lambda>_.
                io_return None))
           else io_return None) (\<lambda>returned.
        case returned of
          Some r \<Rightarrow> io_return r
        | None \<Rightarrow>
            io_bind (call (Schedule (checkin_content checkInId sd) None)
                       (scheduleNotificationAsync E (checkin_content checkInId sd) None)) (\<lambda>nid.
            io_bind (console Log ''Persistent notification scheduled:'') (\<lambda>_.
            io_return \<lparr>h_id = nid, h_type = ''notification''\<rparr>))))
       (\<lambda>error.
        io_bind (console Err ''Failed to start shift reminder:'') (\<lambda>_.
        io_throw (JsError ''Could not start shift reminder'')))"

text \<open>The first half of \<open>endShiftReminder\<close>: on iOS, end the Live Activity, errors swallowed.\<close>

definition end_live_activity :: "'w env \<Rightarrow> string \<Rightarrow> ('w, unit) io" where
  "end_live_activity E checkInId =
     (if Platform_OS E = ''ios'' then
        try_catch
          (io_bind (load_LiveActivity E) (\<lambda>m.
           case la_endActivity m of
             Some endActivity \<Rightarrow>
               io_bind (call (EndActivity checkInId) (endActivity checkInId)) (\<lambda>_.
               console Log ''Live Activity ended:'')
           | None \<Rightarrow> io_return ()))
          (\<lambda>error. console Warn ''Could not end Live Activity:'')
      else io_return ())"

definition endShiftReminder_checkin :: "'w env \<Rightarrow> string \<Rightarrow> string option \<Rightarrow> ('w, unit) io" where
  "endShiftReminder_checkin E checkInId nid =
     try_catch
       (io_bind (end_live_activity E checkInId) (\<lambda>_.
        io_bind (call DismissAll (dismissAllNotificationsAsync E)) (\<lambda>_.
        console Log ''Notifications dismissed'')))
       (\<lambda>error. console Err ''Failed to end shift reminder:'')"

section \<open>A reference device and test doubles\<close>

text \<open>
  A concrete world for running the modules: a clock, the notifications that
  are scheduled for later, those already presented in the tray, and a count of
  schedule calls that are still going to fail (a busy scheduler).
\<close>

record world =
  clock :: nat
  scheduled :: "notification_request list"
  presented :: "notification_request list"
  schedule_faults :: nat

definition fresh_id :: "world \<Rightarrow> string" where
  "fresh_id w = ''notification-'' @ show_nat (length (scheduled w) + length (presented w))"

definition device_schedule :: "content \<Rightarrow> int option \<Rightarrow> (world, string) ext" where
  "device_schedule c trigger w =
     (if 0 < schedule_faults w then
        (Inl (JsError ''scheduler busy''), w\<lparr>schedule_faults := schedule_faults w - 1\<rparr>)
      else case trigger of
        None \<Rightarrow>
          (Inr (fresh_id w),
           w\<lparr>presented := presented w @ [\<lparr>notif_identifier = fresh_id w, notif_content = c\<rparr>]\<rparr>)
      | Some seconds \<Rightarrow>
          (Inr (fresh_id w),
           w\<lparr>scheduled := scheduled w @ [\<lparr>notif_identifier = fresh_id w, notif_content = c\<rparr>]\<rparr>))"

text \<open>
  An Android device with a healthy notification provider: no activity module
  can be imported and \<open>dismissAllNotificationsAsync\<close> empties the tray.
\<close>

definition device :: "world env" where
  "device =
     \<lparr>Platform_OS = ''android'',
      browser = NoWindow,
      Date_now = (\<lambda>w. 1700000000000 + int (clock w)),
      elapse = (\<lambda>ms w. w\<lparr>clock := clock w + ms\<rparr>),
      import_expo_activity = (\<lambda>w. (Inl (JsError ''Cannot find module expo-activity''), w)),
      import_expo_live_activity = (\<lambda>w. (Inl (JsError ''Cannot find module expo-live-activity''), w)),
      setNotificationHandler = (\<lambda>playSound setBadge w. (Inr (), w)),
      setNotificationChannelAsync = (\<lambda>channelId ch w. (Inr (), w)),
      getPermissionsAsync = (\<lambda>w. (Inr \<lparr>granted = True, status = ''granted''\<rparr>, w)),
      requestPermissionsAsync = (\<lambda>w. (Inr \<lparr>granted = True, status = ''granted''\<rparr>, w)),
      scheduleNotificationAsync = device_schedule,
      cancelScheduledNotificationAsync =
        (\<lambda>i w. (Inr (), w\<lparr>scheduled := filter (\<lambda>n. notif_identifier n \<noteq> i) (scheduled w)\<rparr>)),
      getAllScheduledNotificationsAsync = (\<lambda>w. (Inr (scheduled w), w)),
      dismissAllNotificationsAsync = (\<lambda>w. (Inr (), w\<lparr>presented := []\<rparr>)),
      Math_random36 = (\<lambda>w. (''k3j9x1q0z'', w))\<rparr>"

definition iphone_ua :: string where
  "iphone_ua = ''Mozilla/5.0 (iPhone; CPU iPhone OS 17_2 like Mac OS X)''"

text \<open>An activity module whose every function rejects.\<close>

definition unavailable_module :: "world activity_module" where
  "unavailable_module =
     \<lparr>startActivity = Some (\<lambda>args w. (Inl (JsError ''CapabilityUnavailable''), w)),
      updateActivity = Some (\<lambda>args w. (Inl (JsError ''CapabilityUnavailable''), w)),
      dismissActivity = Some (\<lambda>args w. (Inl (JsError ''CapabilityUnavailable''), w))\<rparr>"

text \<open>An activity module whose every function resolves.\<close>

definition working_module :: "world activity_module" where
  "working_module =
     \<lparr>startActivity = Some (\<lambda>args w. (Inr (sa_id args), w)),
      updateActivity = Some (\<lambda>args w. (Inr (), w)),
      dismissActivity = Some (\<lambda>args w. (Inr (), w))\<rparr>"

text \<open>
  An iPhone on iOS 17.2 whose \<open>expo-activity\<close> module rejects every call and
  whose \<open>expo-live-activity\<close> module cannot be imported; the notification
  provider is healthy.
\<close>

definition iphone_failing_activity :: "world env" where
  "iphone_failing_activity =
     device\<lparr>Platform_OS := ''ios'',
            browser := UserAgent (Some iphone_ua),
            import_expo_activity := (\<lambda>w. (Inr unavailable_module, w))\<rparr>"

text \<open>The same iPhone with a notification provider that rejects every schedule call.\<close>

definition iphone_all_failing :: "world env" where
  "iphone_all_failing =
     iphone_failing_activity
       \<lparr>scheduleNotificationAsync := (\<lambda>c trigger w. (Inl (JsError ''scheduler unavailable''), w))\<rparr>"

text \<open>An iPhone on which neither activity module can be imported (Expo Go).\<close>

definition iphone_expo_go :: "world env" where
  "iphone_expo_go = device\<lparr>Platform_OS := ''ios'', browser := UserAgent (Some iphone_ua)\<rparr>"

text \<open>The Android device with a provider that rejects every schedule call.\<close>

definition device_schedule_fails :: "world env" where
  "device_schedule_fails =
     device\<lparr>scheduleNotificationAsync := (\<lambda>c trigger w. (Inl (JsError ''scheduler unavailable''), w))\<rparr>"

text \<open>A runtime in which \<open>window\<close> is defined and \<open>navigator\<close> is not.\<close>

definition device_no_navigator :: "world env" where
  "device_no_navigator = device\<lparr>browser := NoNavigator\<rparr>"

text \<open>An iPhone whose activity module works.\<close>

definition iphone_working_activity :: "world env" where
  "iphone_working_activity =
     device\<lparr>Platform_OS := ''ios'',
            browser := UserAgent (Some iphone_ua),
            import_expo_activity := (\<lambda>w. (Inr working_module, w))\<rparr>"

text \<open>The Android device with a provider whose listing rejects.\<close>

definition device_listing_fails :: "world env" where
  "device_listing_fails =
     device\<lparr>getAllScheduledNotificationsAsync := (\<lambda>w. (Inl (JsError ''listing unavailable''), w))\<rparr>"

definition reminder_of :: "string \<Rightarrow> string \<Rightarrow> string \<Rightarrow> notification_request" where
  "reminder_of ident key subject =
     \<lparr>notif_identifier = ident,
      notif_content =
        \<lparr>title = ''Shift Starting Soon'', body = ''Your shift starts in 15 minutes'',
         data = Some [(key, JStr subject), (''type'', JStr ''shift-reminder'')],
         sound = Some ''default'', badge = 1, priority = None\<rparr>\<rparr>"

definition initial :: "world \<Rightarrow> world state" where
  "initial w = \<lparr>ext = w, trace = [], LiveActivity = None\<rparr>"

definition idle :: world where
  "idle = \<lparr>clock = 0, scheduled = [], presented = [], schedule_faults = 0\<rparr>"

fun is_DateNow :: "event \<Rightarrow> bool" where
  "is_DateNow (DateNow n) = True"
| "is_DateNow ev = False"

text \<open>The idle world, \<open>k\<close> milliseconds after the reference instant.\<close>

definition at_clock :: "nat \<Rightarrow> world" where
  "at_clock k = idle\<lparr>clock := k\<rparr>"

text \<open>A shift whose lead time opens one second after the clock has reached 5000.\<close>

definition late_shift :: ShiftActivityData where
  "late_shift = \<lparr>shiftId = ''shift-43'', startTime = 1700000906000, endTime = 1700000906000,
                 employeeName = None, location = None\<rparr>"





section \<open>Predicates on computations and events\<close>

text \<open>\<open>no_throw m\<close>: from every state, \<open>m\<close> returns a value.\<close>

definition no_throw :: "('w, 'a) io \<Rightarrow> bool" where
  "no_throw m = (\<forall>s. \<exists>x. fst (m s) = Inr x)"

text \<open>\<open>emits P m\<close>: \<open>m\<close> only appends to the trace, and only events satisfying \<open>P\<close>.\<close>

definition emits :: "(event \<Rightarrow> bool) \<Rightarrow> ('w, 'a) io \<Rightarrow> bool" where
  "emits P m = (\<forall>s. \<exists>evs. trace (snd (m s)) = trace s @ evs \<and> list_all P evs)"

fun is_Schedule :: "event \<Rightarrow> bool" where
  "is_Schedule (Schedule c t) = True"
| "is_Schedule ev = False"

text \<open>A shift that starts at the reference device's initial instant.\<close>

definition shift0 :: ShiftActivityData where
  "shift0 = \<lparr>shiftId = ''shift-42'', startTime = 1700000000000, endTime = 1700000600000,
             employeeName = None, location = Some ''Front desk''\<rparr>"

fun is_SetTimeout :: "event \<Rightarrow> bool" where
  "is_SetTimeout (SetTimeout ms) = True"
| "is_SetTimeout ev = False"

text \<open>
  The state in which the retry of \<open>sendTransactionNotification\<close> runs: after the
  failed first attempt, the warning and the one-second timer.
\<close>

definition retry_state :: "'w env \<Rightarrow> NotificationPayload \<Rightarrow> 'w state \<Rightarrow> 'w state" where
  "retry_state E payload s =
     snd (setTimeout E 1000
       (snd (console Warn ''Notification send failed, retrying in 1 second:''
         (snd (send_attempt E payload s)))))"

definition payload0 :: NotificationPayload where
  "payload0 = \<lparr>p_title = ''Bank - Transaction'', p_body = ''Processing transaction'',
                p_data = None, p_sound = None\<rparr>"

definition busy :: "nat \<Rightarrow> world" where
  "busy k = idle\<lparr>schedule_faults := k\<rparr>"

definition attributes0 :: LiveActivityAttributes where
  "attributes0 = \<lparr>accountName = ''Checking'', bankName = ''Bank'', transactionId = ''tx-1''\<rparr>"

definition state0 :: LiveActivityState where
  "state0 = \<lparr>amount = 12, currency = ''EUR'', tx_status = Pending, timestamp = ''2023-11-14T22:13:20Z'',
             merchantName = None, category = None\<rparr>"

fun is_Cancel :: "event \<Rightarrow> bool" where
  "is_Cancel (CancelScheduled i) = True"
| "is_Cancel ev = False"

definition two_in_tray :: world where
  "two_in_tray = idle\<lparr>presented := [reminder_of ''n0'' ''checkInId'' ''checkin-7'',
                                      reminder_of ''n1'' ''checkInId'' ''checkin-8'']\<rparr>"

definition one_scheduled :: world where
  "one_scheduled = idle\<lparr>scheduled := [reminder_of ''n0'' ''shiftId'' ''shift-42'']\<rparr>"

definition two_scheduled :: world where
  "two_scheduled = idle\<lparr>scheduled := [reminder_of ''n0'' ''shiftId'' ''shift-42'',
                                        reminder_of ''n1'' ''shiftId'' ''shift-43'']\<rparr>"

section \<open>Reasoning about the monad\<close>

lemma no_throw_return: "no_throw (io_return x)"
  by (simp add: no_throw_def io_return_def)

lemma no_throw_console: "no_throw (console l m)"
  by (simp add: no_throw_def console_def)

lemma no_throw_bind: "no_throw m \<Longrightarrow> (\<And>x. no_throw (f x)) \<Longrightarrow> no_throw (io_bind m f)"
  unfolding no_throw_def io_bind_def
proof (intro allI)
  fix s
  assume m: "\<forall>s. \<exists>x. fst (m s) = Inr x" and f: "\<And>x. \<forall>s. \<exists>y. fst (f x s) = Inr y"
  obtain r s' where ms: "m s = (r, s')" by (cases "m s")
  with m obtain x where "r = Inr x" by (metis fst_conv)
  with ms f [of x] show "\<exists>x. fst (case m s of (Inl e, s') \<Rightarrow> (Inl e, s') | (Inr x, s') \<Rightarrow> f x s') = Inr x"
    by simp
qed

lemma no_throw_try_catch: "(\<And>e. no_throw (h e)) \<Longrightarrow> no_throw (try_catch m h)"
  unfolding no_throw_def try_catch_def
  by (auto split: prod.splits sum.splits)

lemma no_throw_if: "no_throw a \<Longrightarrow> no_throw b \<Longrightarrow> no_throw (if c then a else b)"
  by simp

lemma no_throwD: "no_throw m \<Longrightarrow> \<exists>x. fst (m s) = Inr x"
  by (simp add: no_throw_def)

lemma no_throw_unitD: "no_throw m \<Longrightarrow> fst (m s) = Inr ()"
  using no_throwD [of m s] by simp

lemma emits_return: "emits P (io_return x)"
  by (simp add: emits_def io_return_def)

lemma emits_throw: "emits P (io_throw e)"
  by (simp add: emits_def io_throw_def)

lemma emits_console: "P (Console l m) \<Longrightarrow> emits P (console l m)"
  by (simp add: emits_def console_def)

lemma emits_call: "P ev \<Longrightarrow> emits P (call ev f)"
  by (simp add: emits_def call_def split: prod.splits)

lemma emits_setTimeout: "P (SetTimeout ms) \<Longrightarrow> emits P (setTimeout E ms)"
  by (simp add: emits_def setTimeout_def)

lemma emits_bind: 
  assumes m: "emits P m" and f: "\<And>x. emits P (f x)"
  shows "emits P (io_bind m f)"
  unfolding emits_def
proof
  fix s
  obtain r s' where ms: "m s = (r, s')" by (cases "m s")
  from m obtain evs where evs: "trace s' = trace s @ evs" "list_all P evs"
    unfolding emits_def using ms by (metis snd_conv)
  show "\<exists>evs. trace (snd (io_bind m f s)) = trace s @ evs \<and> list_all P evs"
  proof (cases r)
    case (Inl e)
    with ms evs show ?thesis by (simp add: io_bind_def)
  next
    case (Inr x)
    from f [of x] obtain evs' where "trace (snd (f x s')) = trace s' @ evs'" "list_all P evs'"
      unfolding emits_def by blast
    with Inr ms evs show ?thesis by (simp add: io_bind_def)
  qed
qed

lemma emits_try_catch:
  assumes m: "emits P m" and h: "\<And>e. emits P (h e)"
  shows "emits P (try_catch m h)"
  unfolding emits_def
proof
  fix s
  obtain r s' where ms: "m s = (r, s')" by (cases "m s")
  from m obtain evs where evs: "trace s' = trace s @ evs" "list_all P evs"
    unfolding emits_def using ms by (metis snd_conv)
  show "\<exists>evs. trace (snd (try_catch m h s)) = trace s @ evs \<and> list_all P evs"
  proof (cases r)
    case (Inr x)
    with ms evs show ?thesis by (simp add: try_catch_def)
  next
    case (Inl e)
    from h [of e] obtain evs' where "trace (snd (h e s')) = trace s' @ evs'" "list_all P evs'"
      unfolding emits_def by blast
    with Inl ms evs show ?thesis by (simp add: try_catch_def)
  qed
qed

lemma emits_now: "(\<And>n. P (DateNow n)) \<Longrightarrow> emits P (now E)"
  by (simp add: emits_def now_def)

lemma emits_random36: "emits P (random36 E)"
  by (simp add: emits_def random36_def split: prod.splits)

lemma emits_io_of: "emits P (io_of r)"
  by (simp add: emits_def io_of_def)

lemma emits_if: "emits P a \<Longrightarrow> emits P b \<Longrightarrow> emits P (if c then a else b)"
  by simp

lemma emits_case_option: "emits P a \<Longrightarrow> (\<And>x. emits P (f x)) \<Longrightarrow> emits P (case v of None \<Rightarrow> a | Some x \<Rightarrow> f x)"
  by (cases v) simp_all

lemma emits_load_LiveActivity: "P (Import ''expo-live-activity'') \<Longrightarrow> emits P (load_LiveActivity E)"
  by (auto simp: emits_def load_LiveActivity_def call_def split: option.splits prod.splits sum.splits)

lemma emits_new_events: "emits P m \<Longrightarrow> list_all P (new_events s (snd (m s)))"
  unfolding emits_def new_events_def by (metis append_eq_conv_conj)

lemmas emits_intros = emits_return emits_throw emits_console emits_call emits_setTimeout
  emits_bind emits_try_catch emits_if emits_case_option emits_load_LiveActivity
  emits_now emits_random36 emits_io_of

lemma toISOString_emits: "emits P (toISOString t)"
  unfolding toISOString_def by (intro emits_intros)

lemma getActivityModule_emits:
  assumes "\<And>l m. P (Console l m)" "\<And>n. P (Import n)"
  shows "emits P (getActivityModule E)"
  unfolding getActivityModule_def by (intro emits_intros assms)

lemma configureNotifications_shift_emits:
  assumes "\<And>l m. P (Console l m)" "P SetNotificationHandler" "\<And>c. P (SetNotificationChannel c)"
  shows "emits P (configureNotifications_shift E cfg)"
  unfolding configureNotifications_shift_def Let_def by (intro emits_intros assms)

lemma shift_start_attempt_emits:
  assumes "\<And>l m. P (Console l m)" "\<And>n. P (Import n)" "\<And>i. P (StartActivity i)"
  shows "emits P (shift_start_attempt E d)"
  unfolding shift_start_attempt_def
  by (intro emits_intros getActivityModule_emits toISOString_emits assms)

lemma shift_end_attempt_emits:
  assumes "\<And>l m. P (Console l m)" "\<And>n. P (Import n)" "\<And>i. P (StartActivity i)"
    "\<And>i. P (UpdateActivity i)"
  shows "emits P (shift_end_attempt E d)"
  unfolding shift_end_attempt_def Let_def
  by (intro emits_intros getActivityModule_emits toISOString_emits assms)



lemma not_isl_fstE: "\<not> isl (fst p) \<Longrightarrow> (\<And>x s'. p = (Inr x, s') \<Longrightarrow> thesis) \<Longrightarrow> thesis"
  by (cases p; cases "fst p") auto

lemma triggerSeconds_clamped: "t - 900000 - n \<le> 1000 \<Longrightarrow> triggerSeconds t n = 1"
  unfolding triggerSeconds_def by simp

text \<open>Twenty minutes ahead, the delay is the five minutes left before the lead time.\<close>

lemma triggerSeconds_twenty_minutes_ahead: "triggerSeconds (n + 20 * 60 * 1000) n = 300"
  unfolding triggerSeconds_def by simp

lemmas io_defs = io_bind_def io_return_def io_throw_def try_catch_def call_def console_def
  now_def setTimeout_def new_events_def random36_def io_of_def

lemmas run_defs = io_defs device_def device_schedule_def initial_def idle_def fresh_id_def
  show_nat.simps digit_char_def

section \<open>The capability probe, verified\<close>

text \<open>The two regular expressions, against what they are to match.\<close>

lemma startsWith_iff: "startsWith s p \<longleftrightarrow> (\<exists>rest. s = p @ rest)"
  by (induction s p rule: startsWith.induct) auto

lemma str_includes_iff: "str_includes s p \<longleftrightarrow> (\<exists>pre post. s = pre @ p @ post)"
proof (induction s)
  case Nil
  show ?case by auto
next
  case (Cons c cs)
  show ?case
  proof
    assume "str_includes (c # cs) p"
    then consider "startsWith (c # cs) p" | "str_includes cs p" by auto
    then show "\<exists>pre post. c # cs = pre @ p @ post"
    proof cases
      case 1
      then obtain rest where "c # cs = p @ rest" by (auto simp: startsWith_iff)
      then have "c # cs = [] @ p @ rest" by simp
      then show ?thesis by blast
    next
      case 2
      with Cons.IH obtain pre post where "cs = pre @ p @ post" by blast
      then have "c # cs = (c # pre) @ p @ post" by simp
      then show ?thesis by blast
    qed
  next
    assume "\<exists>pre post. c # cs = pre @ p @ post"
    then obtain pre post where eq: "c # cs = pre @ p @ post" by blast
    show "str_includes (c # cs) p"
    proof (cases pre)
      case Nil
      with eq have "startsWith (c # cs) p" by (auto simp: startsWith_iff)
      then show ?thesis by simp
    next
      case (Cons a pre')
      with eq have "cs = pre' @ p @ post" by simp
      with Cons.IH have "str_includes cs p" by blast
      then show ?thesis by simp
    qed
  qed
qed

lemma test_iOS_iff:
  "test_iOS ua \<longleftrightarrow> (\<exists>pre post. ua = pre @ ''iPad'' @ post \<or> ua = pre @ ''iPhone'' @ post
                          \<or> ua = pre @ ''iPod'' @ post)"
  unfolding test_iOS_def str_includes_iff by blast

lemma not_isDigit_underscore: "\<not> isDigit CHR ''_''"
  by (simp add: isDigit_def)

lemma takeWhile_run:
  "\<forall>c \<in> set xs. P c \<Longrightarrow> takeWhile P (xs @ ys) = xs @ takeWhile P ys"
  by (induction xs) auto

lemma dropWhile_run:
  "\<forall>c \<in> set xs. P c \<Longrightarrow> dropWhile P (xs @ ys) = dropWhile P ys"
  by (induction xs) auto

text \<open>What a match at the head of the string is.\<close>

lemma match_at_Some_iff:
  "match_at s = Some (major, minor) \<longleftrightarrow>
     (\<exists>post. s = ''OS '' @ major @ ''_'' @ minor @ post
        \<and> major \<noteq> [] \<and> minor \<noteq> []
        \<and> (\<forall>c \<in> set major. isDigit c) \<and> (\<forall>c \<in> set minor. isDigit c)
        \<and> (post = [] \<or> \<not> isDigit (hd post)))"
proof
  assume m: "match_at s = Some (major, minor)"
  then obtain r where s: "s = ''OS '' @ r"
    by (auto simp: match_at_def startsWith_iff split: if_splits)
  let ?r1 = "dropWhile isDigit r"
  from m s have maj: "major = takeWhile isDigit r" "major \<noteq> []"
    and sw: "startsWith ?r1 ''_''"
    and mn: "minor = takeWhile isDigit (tl ?r1)" "minor \<noteq> []"
    by (auto simp: match_at_def Let_def split: if_splits)
  from sw obtain r2 where r1: "?r1 = ''_'' @ r2" by (auto simp: startsWith_iff)
  have "r = major @ ?r1" by (simp add: maj)
  also have "?r1 = ''_'' @ minor @ dropWhile isDigit r2"
    using r1 mn by simp
  finally have "s = ''OS '' @ major @ ''_'' @ minor @ dropWhile isDigit r2"
    using s by simp
  moreover have "\<forall>c \<in> set major. isDigit c" "\<forall>c \<in> set minor. isDigit c"
    using maj mn by (auto dest: set_takeWhileD)
  moreover have "dropWhile isDigit r2 = [] \<or> \<not> isDigit (hd (dropWhile isDigit r2))"
    using hd_dropWhile [of isDigit r2] by blast
  ultimately show "\<exists>post. s = ''OS '' @ major @ ''_'' @ minor @ post
        \<and> major \<noteq> [] \<and> minor \<noteq> []
        \<and> (\<forall>c \<in> set major. isDigit c) \<and> (\<forall>c \<in> set minor. isDigit c)
        \<and> (post = [] \<or> \<not> isDigit (hd post))"
    using maj mn by blast
next
  assume "\<exists>post. s = ''OS '' @ major @ ''_'' @ minor @ post
        \<and> major \<noteq> [] \<and> minor \<noteq> []
        \<and> (\<forall>c \<in> set major. isDigit c) \<and> (\<forall>c \<in> set minor. isDigit c)
        \<and> (post = [] \<or> \<not> isDigit (hd post))"
  then obtain post where s: "s = ''OS '' @ major @ ''_'' @ minor @ post"
    and ne: "major \<noteq> []" "minor \<noteq> []"
    and dg: "\<forall>c \<in> set major. isDigit c" "\<forall>c \<in> set minor. isDigit c"
    and post: "post = [] \<or> \<not> isDigit (hd post)"
    by blast
  have tw_post: "takeWhile isDigit post = []"
    using post by (cases post) auto
  have d3: "drop 3 s = major @ CHR ''_'' # minor @ post" using s by simp
  have t1: "takeWhile isDigit (major @ CHR ''_'' # minor @ post) = major"
    using dg(1) by (simp add: takeWhile_run not_isDigit_underscore)
  have t2: "dropWhile isDigit (major @ CHR ''_'' # minor @ post) = CHR ''_'' # minor @ post"
    using dg(1) by (simp add: dropWhile_run not_isDigit_underscore)
  have t3: "takeWhile isDigit (minor @ post) = minor"
    using dg(2) tw_post by (simp add: takeWhile_run)
  have sw: "startsWith s ''OS ''" using s by (simp add: startsWith_iff)
  show "match_at s = Some (major, minor)"
    unfolding match_at_def Let_def using sw ne
    by (simp add: d3 t1 t2 t3)
qed

text \<open>A match exists at the head exactly when the pattern's language has a prefix of the string.\<close>

lemma match_at_None_iff:
  "match_at s = None \<longleftrightarrow>
     \<not> (\<exists>d1 d2 post. s = ''OS '' @ d1 @ ''_'' @ d2 @ post \<and> d1 \<noteq> [] \<and> d2 \<noteq> []
          \<and> (\<forall>c \<in> set d1. isDigit c) \<and> (\<forall>c \<in> set d2. isDigit c))"
proof
  assume n: "match_at s = None"
  show "\<not> (\<exists>d1 d2 post. s = ''OS '' @ d1 @ ''_'' @ d2 @ post \<and> d1 \<noteq> [] \<and> d2 \<noteq> []
          \<and> (\<forall>c \<in> set d1. isDigit c) \<and> (\<forall>c \<in> set d2. isDigit c))"
  proof
    assume "\<exists>d1 d2 post. s = ''OS '' @ d1 @ ''_'' @ d2 @ post \<and> d1 \<noteq> [] \<and> d2 \<noteq> []
          \<and> (\<forall>c \<in> set d1. isDigit c) \<and> (\<forall>c \<in> set d2. isDigit c)"
    then obtain d1 d2 post where s: "s = ''OS '' @ d1 @ ''_'' @ d2 @ post"
      and ne: "d1 \<noteq> []" "d2 \<noteq> []"
      and dg: "\<forall>c \<in> set d1. isDigit c" "\<forall>c \<in> set d2. isDigit c"
      by blast
    let ?minor = "d2 @ takeWhile isDigit post"
    let ?post = "dropWhile isDigit post"
    have "s = ''OS '' @ d1 @ ''_'' @ ?minor @ ?post" using s by simp
    moreover have "?minor \<noteq> []" using ne by simp
    moreover have "\<forall>c \<in> set ?minor. isDigit c" using dg(2) by (auto dest: set_takeWhileD)
    moreover have "?post = [] \<or> \<not> isDigit (hd ?post)" using hd_dropWhile [of isDigit post] by blast
    ultimately have "match_at s = Some (d1, ?minor)"
      using ne(1) dg(1) unfolding match_at_Some_iff by blast
    with n show False by simp
  qed
next
  assume h: "\<not> (\<exists>d1 d2 post. s = ''OS '' @ d1 @ ''_'' @ d2 @ post \<and> d1 \<noteq> [] \<and> d2 \<noteq> []
          \<and> (\<forall>c \<in> set d1. isDigit c) \<and> (\<forall>c \<in> set d2. isDigit c))"
  show "match_at s = None"
  proof (cases "match_at s")
    case None
    then show ?thesis .
  next
    case (Some m)
    obtain major minor where "m = (major, minor)" by (cases m)
    with Some have "match_at s = Some (major, minor)" by simp
    with h show ?thesis unfolding match_at_Some_iff by blast
  qed
qed

text \<open>The search returns the match at the leftmost position that has one.\<close>

lemma match_OS_version_Some_iff:
  "match_OS_version ua = Some m \<longleftrightarrow>
     (\<exists>pre s. ua = pre @ s \<and> match_at s = Some m
        \<and> (\<forall>pre' s'. ua = pre' @ s' \<and> length pre' < length pre \<longrightarrow> match_at s' = None))"
proof (induction ua)
  case Nil
  show ?case by (simp add: match_at_def)
next
  case (Cons c cs)
  show ?case
  proof (cases "match_at (c # cs)")
    case (Some m')
    have "(\<exists>pre s. c # cs = pre @ s \<and> match_at s = Some m
        \<and> (\<forall>pre' s'. c # cs = pre' @ s' \<and> length pre' < length pre \<longrightarrow> match_at s' = None))
        \<longleftrightarrow> m' = m"
    proof
      assume "\<exists>pre s. c # cs = pre @ s \<and> match_at s = Some m
        \<and> (\<forall>pre' s'. c # cs = pre' @ s' \<and> length pre' < length pre \<longrightarrow> match_at s' = None)"
      then obtain pre s where eq: "c # cs = pre @ s" and ms: "match_at s = Some m"
        and left: "\<forall>pre' s'. c # cs = pre' @ s' \<and> length pre' < length pre \<longrightarrow> match_at s' = None"
        by blast
      have "pre = []"
      proof (rule ccontr)
        assume "pre \<noteq> []"
        then have "c # cs = [] @ (c # cs) \<and> length ([] :: string) < length pre" by simp
        with left have "match_at (c # cs) = None" by blast
        with Some show False by simp
      qed
      with eq ms Some show "m' = m" by simp
    next
      assume "m' = m"
      with Some have "c # cs = [] @ (c # cs) \<and> match_at (c # cs) = Some m
        \<and> (\<forall>pre' s'. c # cs = pre' @ s' \<and> length pre' < length ([] :: string) \<longrightarrow> match_at s' = None)"
        by simp
      then show "\<exists>pre s. c # cs = pre @ s \<and> match_at s = Some m
        \<and> (\<forall>pre' s'. c # cs = pre' @ s' \<and> length pre' < length pre \<longrightarrow> match_at s' = None)"
        by blast
    qed
    with Some show ?thesis by simp
  next
    case None
    have "(\<exists>pre s. c # cs = pre @ s \<and> match_at s = Some m
        \<and> (\<forall>pre' s'. c # cs = pre' @ s' \<and> length pre' < length pre \<longrightarrow> match_at s' = None))
      \<longleftrightarrow> (\<exists>pre s. cs = pre @ s \<and> match_at s = Some m
        \<and> (\<forall>pre' s'. cs = pre' @ s' \<and> length pre' < length pre \<longrightarrow> match_at s' = None))"
    proof
      assume "\<exists>pre s. c # cs = pre @ s \<and> match_at s = Some m
        \<and> (\<forall>pre' s'. c # cs = pre' @ s' \<and> length pre' < length pre \<longrightarrow> match_at s' = None)"
      then obtain pre s where eq: "c # cs = pre @ s" and ms: "match_at s = Some m"
        and left: "\<forall>pre' s'. c # cs = pre' @ s' \<and> length pre' < length pre \<longrightarrow> match_at s' = None"
        by blast
      from eq ms None obtain p where pre: "pre = c # p" and cs: "cs = p @ s"
        by (cases pre) auto
      have "\<forall>pre' s'. cs = pre' @ s' \<and> length pre' < length p \<longrightarrow> match_at s' = None"
      proof (intro allI impI)
        fix pre' s'
        assume "cs = pre' @ s' \<and> length pre' < length p"
        then have "c # cs = (c # pre') @ s' \<and> length (c # pre') < length pre"
          using pre by simp
        with left show "match_at s' = None" by blast
      qed
      with cs ms show "\<exists>pre s. cs = pre @ s \<and> match_at s = Some m
        \<and> (\<forall>pre' s'. cs = pre' @ s' \<and> length pre' < length pre \<longrightarrow> match_at s' = None)"
        by blast
    next
      assume "\<exists>pre s. cs = pre @ s \<and> match_at s = Some m
        \<and> (\<forall>pre' s'. cs = pre' @ s' \<and> length pre' < length pre \<longrightarrow> match_at s' = None)"
      then obtain p s where cs: "cs = p @ s" and ms: "match_at s = Some m"
        and left: "\<forall>pre' s'. cs = pre' @ s' \<and> length pre' < length p \<longrightarrow> match_at s' = None"
        by blast
      have "\<forall>pre' s'. c # cs = pre' @ s' \<and> length pre' < length (c # p) \<longrightarrow> match_at s' = None"
      proof (intro allI impI)
        fix pre' s'
        assume a: "c # cs = pre' @ s' \<and> length pre' < length (c # p)"
        show "match_at s' = None"
        proof (cases pre')
          case Nil
          with a None show ?thesis by simp
        next
          case (Cons a' q)
          with a have "cs = q @ s' \<and> length q < length p" by simp
          with left show ?thesis by blast
        qed
      qed
      moreover have "c # cs = (c # p) @ s" using cs by simp
      ultimately show "\<exists>pre s. c # cs = pre @ s \<and> match_at s = Some m
        \<and> (\<forall>pre' s'. c # cs = pre' @ s' \<and> length pre' < length pre \<longrightarrow> match_at s' = None)"
        using ms by blast
    qed
    with None Cons.IH show ?thesis by simp
  qed
qed

lemma match_OS_version_None_iff:
  "match_OS_version ua = None \<longleftrightarrow> (\<forall>pre s. ua = pre @ s \<longrightarrow> match_at s = None)"
proof (induction ua)
  case Nil
  show ?case by (simp add: match_at_def)
next
  case (Cons c cs)
  show ?case
  proof (cases "match_at (c # cs)")
    case (Some m)
    then have "\<not> (\<forall>pre s. c # cs = pre @ s \<longrightarrow> match_at s = None)"
      by (metis append_Nil option.distinct(1))
    with Some show ?thesis by simp
  next
    case None
    have "(\<forall>pre s. c # cs = pre @ s \<longrightarrow> match_at s = None)
      \<longleftrightarrow> (\<forall>pre s. cs = pre @ s \<longrightarrow> match_at s = None)"
    proof
      assume a: "\<forall>pre s. c # cs = pre @ s \<longrightarrow> match_at s = None"
      show "\<forall>pre s. cs = pre @ s \<longrightarrow> match_at s = None"
      proof (intro allI impI)
        fix pre s assume "cs = pre @ s"
        then have "c # cs = (c # pre) @ s" by simp
        with a show "match_at s = None" by blast
      qed
    next
      assume a: "\<forall>pre s. cs = pre @ s \<longrightarrow> match_at s = None"
      show "\<forall>pre s. c # cs = pre @ s \<longrightarrow> match_at s = None"
      proof (intro allI impI)
        fix pre s assume e: "c # cs = pre @ s"
        show "match_at s = None"
        proof (cases pre)
          case Nil
          with e None show ?thesis by simp
        next
          case (Cons a' q)
          with e have "cs = q @ s" by simp
          with a show ?thesis by blast
        qed
      qed
    qed
    with None Cons.IH show ?thesis by simp
  qed
qed


lemma match_OS_version_leftmost:
  "match_OS_version ua = Some (major, minor) \<longleftrightarrow>
     (\<exists>pre post. ua = pre @ ''OS '' @ major @ ''_'' @ minor @ post
        \<and> major \<noteq> [] \<and> minor \<noteq> []
        \<and> (\<forall>c \<in> set major. isDigit c) \<and> (\<forall>c \<in> set minor. isDigit c)
        \<and> (post = [] \<or> \<not> isDigit (hd post))
        \<and> (\<forall>pre' s'. ua = pre' @ s' \<and> length pre' < length pre \<longrightarrow> match_at s' = None))"
  unfolding match_OS_version_Some_iff match_at_Some_iff by blast

lemma parseInt_snoc: "parseInt (ds @ [c]) = 10 * parseInt ds + (of_char c - 48)"
  by (simp add: parseInt_def)

lemma undefined_is_not_iOS: "\<not> test_iOS ''undefined''"
  by (simp add: test_iOS_def)

lemma probe_throws_iff: "isl (isLiveActivitySupported_try b) \<longleftrightarrow> b = NoNavigator"
proof (cases b)
  case (UserAgent u)
  then show ?thesis
    using undefined_is_not_iOS by (cases u) (auto simp: Let_def split: option.splits)
qed simp_all

lemma probe_run:
  "isLiveActivitySupported E s =
     (Inr (probe_value (browser E)),
      if browser E = NoNavigator
      then s\<lparr>trace := trace s @ [Console Warn ''Error checking Live Activity support:'']\<rparr>
      else s)"
proof (cases "isLiveActivitySupported_try (browser E)")
  case (Inl e)
  then have "browser E = NoNavigator" using probe_throws_iff [of "browser E"] by simp
  with Inl show ?thesis
    by (simp add: isLiveActivitySupported_def probe_value_def io_defs)
next
  case (Inr r)
  then have "browser E \<noteq> NoNavigator" using probe_throws_iff [of "browser E"] by auto
  with Inr show ?thesis
    by (simp add: isLiveActivitySupported_def probe_value_def io_defs)
qed

lemma probe_value_iff:
  "probe_value b \<longleftrightarrow>
      (\<exists>ua major minor. b = UserAgent (Some ua) \<and> test_iOS ua
         \<and> match_OS_version ua = Some (major, minor)
         \<and> (16 < parseInt major \<or> (parseInt major = 16 \<and> 1 \<le> parseInt minor)))"
proof (cases b)
  case NoWindow
  then show ?thesis by (simp add: probe_value_def)
next
  case NoNavigator
  then show ?thesis by (simp add: probe_value_def)
next
  case (UserAgent u)
  show ?thesis
  proof (cases u)
    case None
    with UserAgent undefined_is_not_iOS show ?thesis by (simp add: probe_value_def)
  next
    case (Some ua)
    with UserAgent show ?thesis
      by (auto simp: probe_value_def Let_def split: option.splits)
  qed
qed

text \<open>
  C6, as amended. \<open>isLiveActivitySupported\<close> never throws, and the value it
  returns depends on \<open>window\<close> and \<open>navigator.userAgent\<close> alone: it is true
  exactly when there is a user agent string, the string names an iPad, iPhone
  or iPod, and the leftmost \<open>OS <digits>_<digits>\<close> in it parses to a major
  version above 16, or to 16 with a minor version of at least 1. Every failure
  of the detection gives \<open>false\<close>: no \<open>window\<close>, no \<open>navigator\<close>, no user agent, a
  user agent of another platform, no version in the string. It is not free of
  effects: when the detection throws, which is exactly when \<open>window\<close> is defined
  and \<open>navigator\<close> is not, the \<open>catch\<close> writes one warning to the console; on
  every other path the state is left as it was.
\<close>

theorem capability_probe:
  "fst (isLiveActivitySupported E s) = Inr (probe_value (browser E))
   \<and> (probe_value b \<longleftrightarrow>
      (\<exists>ua major minor. b = UserAgent (Some ua) \<and> test_iOS ua
         \<and> match_OS_version ua = Some (major, minor)
         \<and> (16 < parseInt major \<or> (parseInt major = 16 \<and> 1 \<le> parseInt minor))))
   \<and> (browser E \<noteq> NoNavigator \<longrightarrow> snd (isLiveActivitySupported E s) = s)
   \<and> (browser E = NoNavigator \<longrightarrow>
        snd (isLiveActivitySupported E s)
          = s\<lparr>trace := trace s @ [Console Warn ''Error checking Live Activity support:'']\<rparr>)
   \<and> (isl (isLiveActivitySupported_try b) \<longleftrightarrow> b = NoNavigator)
   \<and> \<not> probe_value NoWindow
   \<and> \<not> probe_value NoNavigator
   \<and> \<not> probe_value (UserAgent None)
   \<and> (\<not> test_iOS ua \<longrightarrow> \<not> probe_value (UserAgent (Some ua)))
   \<and> (match_OS_version ua = None \<longrightarrow> \<not> probe_value (UserAgent (Some ua)))
   \<and> (test_iOS ua \<longleftrightarrow>
        (\<exists>pre post. ua = pre @ ''iPad'' @ post \<or> ua = pre @ ''iPhone'' @ post
                     \<or> ua = pre @ ''iPod'' @ post))
   \<and> (match_OS_version ua = Some (major, minor) \<longleftrightarrow>
        (\<exists>pre post. ua = pre @ ''OS '' @ major @ ''_'' @ minor @ post
           \<and> major \<noteq> [] \<and> minor \<noteq> []
           \<and> (\<forall>c \<in> set major. isDigit c) \<and> (\<forall>c \<in> set minor. isDigit c)
           \<and> (post = [] \<or> \<not> isDigit (hd post))
           \<and> (\<forall>pre' s'. ua = pre' @ s' \<and> length pre' < length pre \<longrightarrow> match_at s' = None)))"
proof -
  have run: "fst (isLiveActivitySupported E s) = Inr (probe_value (browser E))"
    "browser E \<noteq> NoNavigator \<longrightarrow> snd (isLiveActivitySupported E s) = s"
    "browser E = NoNavigator \<longrightarrow>
        snd (isLiveActivitySupported E s)
          = s\<lparr>trace := trace s @ [Console Warn ''Error checking Live Activity support:'']\<rparr>"
    by (simp_all add: probe_run)
  have rest: "\<not> probe_value NoWindow" "\<not> probe_value NoNavigator"
    "\<not> probe_value (UserAgent None)"
    "\<not> test_iOS ua \<longrightarrow> \<not> probe_value (UserAgent (Some ua))"
    "match_OS_version ua = None \<longrightarrow> \<not> probe_value (UserAgent (Some ua))"
    using undefined_is_not_iOS by (simp_all add: probe_value_def)
  from run rest probe_value_iff [of b] probe_throws_iff [of b]
    test_iOS_iff [of ua] match_OS_version_leftmost [of ua major minor]
  show ?thesis by blast
qed

lemmas probe_defs = probe_value_def test_iOS_def match_at_def isDigit_def parseInt_def

lemma iphone_supported: "probe_value (UserAgent (Some iphone_ua))"
  by (simp add: probe_defs iphone_ua_def)

theorem capability_probe_witness:
  "fst (isLiveActivitySupported iphone_expo_go (initial idle)) = Inr True
   \<and> snd (isLiveActivitySupported iphone_expo_go (initial idle)) = initial idle
   \<and> test_iOS iphone_ua
   \<and> match_OS_version iphone_ua = Some (''17'', ''2'')
   \<and> parseInt ''17'' = 17 \<and> parseInt ''2'' = 2
   \<and> probe_value (UserAgent (Some ''Mozilla/5.0 (iPad; CPU OS 16_1 like Mac OS X)''))
   \<and> \<not> probe_value (UserAgent (Some ''Mozilla/5.0 (iPhone; CPU iPhone OS 16_0 like Mac OS X)''))
   \<and> \<not> probe_value (UserAgent (Some ''Mozilla/5.0 (iPhone; CPU iPhone OS 15_7 like Mac OS X)''))
   \<and> browser device_no_navigator = NoNavigator
   \<and> isl (isLiveActivitySupported_try NoNavigator)
   \<and> fst (isLiveActivitySupported device_no_navigator (initial idle)) = Inr False
   \<and> trace (snd (isLiveActivitySupported device_no_navigator (initial idle)))
       = [Console Warn ''Error checking Live Activity support:'']
   \<and> \<not> test_iOS ''Mozilla/5.0 (Linux; Android 14; Pixel 8)''
   \<and> \<not> probe_value (UserAgent (Some ''Mozilla/5.0 (Linux; Android 14; Pixel 8)''))
   \<and> match_OS_version ''Mozilla/5.0 (iPhone)'' = None
   \<and> \<not> probe_value (UserAgent (Some ''Mozilla/5.0 (iPhone)''))"
  using capability_probe [of iphone_expo_go "initial idle" "UserAgent (Some iphone_ua)"
      "''Mozilla/5.0 (Linux; Android 14; Pixel 8)''"]
    capability_probe [of device_no_navigator "initial idle" NoNavigator "''Mozilla/5.0 (iPhone)''"]
  by (simp add: probe_defs iphone_ua_def iphone_expo_go_def device_no_navigator_def device_def
      initial_def)

lemma probe_value_simps:
  "\<not> probe_value NoWindow" "\<not> probe_value NoNavigator" "probe_value (UserAgent (Some iphone_ua))"
  by (simp_all add: iphone_supported) (simp_all add: probe_value_def)

text \<open>
  C6 as stated fails in its "pure, no side effects": with \<open>window\<close> defined and
  \<open>navigator\<close> not, the probe returns \<open>false\<close> and has written to the console.
\<close>

theorem probe_warns_counterexample:
  "fst (isLiveActivitySupported device_no_navigator (initial idle)) = Inr False
   \<and> new_events (initial idle) (snd (isLiveActivitySupported device_no_navigator (initial idle)))
       = [Console Warn ''Error checking Live Activity support:'']"
  by (simp add: isLiveActivitySupported_def device_no_navigator_def run_defs)

section \<open>Listing the active shift reminders\<close>

text \<open>
  C10. \<open>getActiveShiftReminders\<close> returns a value whatever the listing of the
  scheduled notifications does (and whatever the filter meets in the payloads);
  the \<open>total\<close> it returns is the length of the \<open>notifications\<close> it returns; and when
  the listing itself rejects, the result is the empty list with \<open>total\<close> 0.
\<close>

theorem getActiveShiftReminders_total:
  "\<exists>r. fst (getActiveShiftReminders E s) = Inr r \<and> total r = length (notifications r)
       \<and> (isl (fst (getAllScheduledNotificationsAsync E (ext s))) \<longrightarrow> notifications r = [] \<and> total r = 0)"
  unfolding getActiveShiftReminders_def io_defs
  by (auto split: prod.splits sum.splits)

theorem getActiveShiftReminders_total_witness:
  "isl (fst (getAllScheduledNotificationsAsync device_listing_fails (ext (initial idle))))
   \<and> fst (getActiveShiftReminders device_listing_fails (initial idle)) = Inr \<lparr>notifications = [], total = 0\<rparr>"
  using getActiveShiftReminders_total [of device_listing_fails "initial idle"]
  by (simp add: device_listing_fails_def run_defs getActiveShiftReminders_def)

section \<open>The single retry of the notification send\<close>

lemma send_attempt_events:
  "\<exists>evs. trace (snd (send_attempt E payload s)) = trace s @ evs
     \<and> filter (\<lambda>ev. ev = GetPermissions) evs = [GetPermissions]
     \<and> length (filter is_Schedule evs) \<le> 1
     \<and> filter is_SetTimeout evs = []"
  unfolding send_attempt_def io_defs
  by (auto split: prod.splits sum.splits)

lemma stn_False:
  "sendTransactionNotification E payload False s =
     (case send_attempt E payload s of
        (Inl e, s') \<Rightarrow>
          (Inl (NotificationError ''Failed to send notification'' (message_or_string e)),
           s'\<lparr>trace := trace s' @ [Console Err ''Error in sendTransactionNotification:'']\<rparr>)
      | (Inr x, s') \<Rightarrow> (Inr x, s'))"
  by (subst sendTransactionNotification.simps) (simp add: io_defs split: prod.splits sum.splits)

lemma stn_True:
  "sendTransactionNotification E payload True s =
     (case send_attempt E payload s of
        (Inl e, s') \<Rightarrow> sendTransactionNotification E payload False (retry_state E payload s)
      | (Inr x, s') \<Rightarrow> (Inr x, s'))"
  by (subst sendTransactionNotification.simps)
     (simp add: io_defs retry_state_def split: prod.splits sum.splits)

lemma retry_state_trace:
  "trace (retry_state E payload s) =
     trace (snd (send_attempt E payload s))
       @ [Console Warn ''Notification send failed, retrying in 1 second:'', SetTimeout 1000]"
  by (simp add: retry_state_def setTimeout_def console_def)

lemma stn_False_events:
  "\<exists>evs. trace (snd (sendTransactionNotification E payload False s)) = trace s @ evs
     \<and> filter (\<lambda>ev. ev = GetPermissions) evs = [GetPermissions]
     \<and> length (filter is_Schedule evs) \<le> 1
     \<and> filter is_SetTimeout evs = []"
proof -
  obtain evs where evs: "trace (snd (send_attempt E payload s)) = trace s @ evs"
      "filter (\<lambda>ev. ev = GetPermissions) evs = [GetPermissions]"
      "length (filter is_Schedule evs) \<le> 1" "filter is_SetTimeout evs = []"
    using send_attempt_events [of E payload s] by blast
  obtain r s' where a: "send_attempt E payload s = (r, s')" by (cases "send_attempt E payload s")
  show ?thesis
  proof (cases r)
    case (Inl e)
    with a evs show ?thesis by (simp add: stn_False)
  next
    case (Inr x)
    with a evs show ?thesis by (simp add: stn_False)
  qed
qed

lemma new_events_append: "trace s' = trace s @ evs \<Longrightarrow> new_events s s' = evs"
  by (simp add: new_events_def)

text \<open>
  C2. One request issues at most two schedule calls. When the first attempt
  throws, \<open>sendTransactionNotification\<close> (called with its default \<open>retry = true\<close>)
  sets exactly one timer, of 1000 ms, and then makes exactly one more attempt
  (two attempts in all, each opening with one permission query), which does not
  retry again: when that attempt throws too, the call fails with the error
  wrapped as \<open>NotificationError('Failed to send notification', message)\<close>. When
  the first attempt succeeds there is no retry.
\<close>

theorem notification_retried_once:
  "length (filter is_Schedule (new_events s (snd (sendTransactionNotification E payload retry s)))) \<le> 2
   \<and> (\<not> isl (fst (send_attempt E payload s)) \<longrightarrow>
        sendTransactionNotification E payload True s = send_attempt E payload s)
   \<and> (isl (fst (send_attempt E payload s)) \<longrightarrow>
        sendTransactionNotification E payload True s
          = sendTransactionNotification E payload False (retry_state E payload s)
        \<and> filter is_SetTimeout (new_events s (snd (sendTransactionNotification E payload True s)))
            = [SetTimeout 1000]
        \<and> filter (\<lambda>ev. ev = GetPermissions)
             (new_events s (snd (sendTransactionNotification E payload True s)))
            = [GetPermissions, GetPermissions]
        \<and> (\<forall>e. fst (send_attempt E payload (retry_state E payload s)) = Inl e \<longrightarrow>
             fst (sendTransactionNotification E payload True s)
               = Inl (NotificationError ''Failed to send notification'' (message_or_string e))))"
proof -
  obtain evs where evs: "trace (snd (send_attempt E payload s)) = trace s @ evs"
      "filter (\<lambda>ev. ev = GetPermissions) evs = [GetPermissions]"
      "length (filter is_Schedule evs) \<le> 1" "filter is_SetTimeout evs = []"
    using send_attempt_events [of E payload s] by blast
  obtain r s' where a: "send_attempt E payload s = (r, s')" by (cases "send_attempt E payload s")
  let ?s2 = "retry_state E payload s"
  obtain evs2 where evs2: "trace (snd (sendTransactionNotification E payload False ?s2)) = trace ?s2 @ evs2"
      "filter (\<lambda>ev. ev = GetPermissions) evs2 = [GetPermissions]"
      "length (filter is_Schedule evs2) \<le> 1" "filter is_SetTimeout evs2 = []"
    using stn_False_events [of E payload ?s2] by blast
  have tr2: "trace ?s2 = trace s @ evs @ [Console Warn ''Notification send failed, retrying in 1 second:'', SetTimeout 1000]"
    by (simp add: retry_state_trace evs)
  obtain evsF where evsF: "trace (snd (sendTransactionNotification E payload False s)) = trace s @ evsF"
      "length (filter is_Schedule evsF) \<le> 1"
    using stn_False_events [of E payload s] by blast
  have count: "length (filter is_Schedule (new_events s (snd (sendTransactionNotification E payload retry s)))) \<le> 2"
  proof (cases retry)
    case False
    with evsF show ?thesis by (simp add: new_events_append)
  next
    case True
    show ?thesis
    proof (cases r)
      case (Inr x)
      with a evs True show ?thesis by (simp add: stn_True new_events_append)
    next
      case (Inl e)
      have "trace (snd (sendTransactionNotification E payload True s))
            = trace s @ (evs @ [Console Warn ''Notification send failed, retrying in 1 second:'', SetTimeout 1000] @ evs2)"
        using a Inl evs2 tr2 by (simp add: stn_True)
      then show ?thesis using evs evs2 True by (simp add: new_events_append)
    qed
  qed
  have ok: "\<not> isl (fst (send_attempt E payload s)) \<longrightarrow>
        sendTransactionNotification E payload True s = send_attempt E payload s"
    using a by (cases r) (simp_all add: stn_True)
  have fail: "isl (fst (send_attempt E payload s)) \<longrightarrow>
        sendTransactionNotification E payload True s
          = sendTransactionNotification E payload False (retry_state E payload s)
        \<and> filter is_SetTimeout (new_events s (snd (sendTransactionNotification E payload True s)))
            = [SetTimeout 1000]
        \<and> filter (\<lambda>ev. ev = GetPermissions)
             (new_events s (snd (sendTransactionNotification E payload True s)))
            = [GetPermissions, GetPermissions]
        \<and> (\<forall>e. fst (send_attempt E payload (retry_state E payload s)) = Inl e \<longrightarrow>
             fst (sendTransactionNotification E payload True s)
               = Inl (NotificationError ''Failed to send notification'' (message_or_string e)))"
  proof
    assume "isl (fst (send_attempt E payload s))"
    with a obtain e where Inl: "r = Inl e" by (cases r) simp_all
    have eq: "sendTransactionNotification E payload True s
          = sendTransactionNotification E payload False ?s2"
      using a Inl by (simp add: stn_True)
    have tr: "trace (snd (sendTransactionNotification E payload True s))
            = trace s @ (evs @ [Console Warn ''Notification send failed, retrying in 1 second:'', SetTimeout 1000] @ evs2)"
      using eq evs2 tr2 by simp
    have wrapped: "\<forall>e. fst (send_attempt E payload ?s2) = Inl e \<longrightarrow>
             fst (sendTransactionNotification E payload True s)
               = Inl (NotificationError ''Failed to send notification'' (message_or_string e))"
      unfolding eq by (auto simp: stn_False split: prod.splits sum.splits)
    from eq tr wrapped evs evs2 show "sendTransactionNotification E payload True s
          = sendTransactionNotification E payload False (retry_state E payload s)
        \<and> filter is_SetTimeout (new_events s (snd (sendTransactionNotification E payload True s)))
            = [SetTimeout 1000]
        \<and> filter (\<lambda>ev. ev = GetPermissions)
             (new_events s (snd (sendTransactionNotification E payload True s)))
            = [GetPermissions, GetPermissions]
        \<and> (\<forall>e. fst (send_attempt E payload (retry_state E payload s)) = Inl e \<longrightarrow>
             fst (sendTransactionNotification E payload True s)
               = Inl (NotificationError ''Failed to send notification'' (message_or_string e)))"
      by (simp add: new_events_append)
  qed
  from count ok fail show ?thesis by blast
qed

theorem notification_retried_once_witness:
  "isl (fst (send_attempt device payload0 (initial (busy 2))))
   \<and> fst (send_attempt device payload0 (retry_state device payload0 (initial (busy 2))))
       = Inl (JsError ''scheduler busy'')
   \<and> fst (sendTransactionNotification device payload0 True (initial (busy 2)))
       = Inl (NotificationError ''Failed to send notification'' ''scheduler busy'')
   \<and> new_events (initial (busy 2)) (snd (sendTransactionNotification device payload0 True (initial (busy 2))))
       = [GetPermissions, Schedule (payload_content payload0) None,
          Console Warn ''Notification send failed, retrying in 1 second:'', SetTimeout 1000,
          GetPermissions, Schedule (payload_content payload0) None,
          Console Err ''Error in sendTransactionNotification:'']
   \<and> isl (fst (send_attempt device payload0 (initial (busy 1))))
   \<and> fst (sendTransactionNotification device payload0 True (initial (busy 1))) = Inr ''notification-0''
   \<and> length (filter is_Schedule
        (new_events (initial (busy 1)) (snd (sendTransactionNotification device payload0 True (initial (busy 1))))))
       = 2
   \<and> \<not> isl (fst (send_attempt device payload0 (initial idle)))
   \<and> fst (sendTransactionNotification device payload0 True (initial idle)) = Inr ''notification-0''"
  using notification_retried_once [of "initial (busy 2)" device payload0 True]
    notification_retried_once [of "initial (busy 1)" device payload0 True]
    notification_retried_once [of "initial idle" device payload0 True]
  by (simp add: stn_True stn_False retry_state_def send_attempt_def run_defs busy_def)

section \<open>Ending a check-in reminder: the broad dismiss\<close>

lemma end_live_activity_no_throw: "no_throw (end_live_activity E checkInId)"
  unfolding end_live_activity_def
  by (intro no_throw_if no_throw_try_catch no_throw_console no_throw_return)

lemma end_live_activity_emits:
  assumes "\<And>ev. ev \<noteq> DismissAll \<Longrightarrow> \<not> is_Cancel ev \<Longrightarrow> P ev"
  shows "emits P (end_live_activity E checkInId)"
  unfolding end_live_activity_def by (intro emits_intros assms) simp_all

lemma end_live_activity_other_platform:
  "Platform_OS E \<noteq> ''ios'' \<Longrightarrow> end_live_activity E checkInId = io_return ()"
  by (simp add: end_live_activity_def)

lemma endShiftReminder_checkin_run:
  "\<exists>evs s1 l m. end_live_activity E checkInId s = (Inr (), s1)
      \<and> trace s1 = trace s @ evs \<and> list_all (\<lambda>ev. ev \<noteq> DismissAll \<and> \<not> is_Cancel ev) evs
      \<and> snd (endShiftReminder_checkin E checkInId nid s)
          = s1\<lparr>ext := snd (dismissAllNotificationsAsync E (ext s1)),
               trace := trace s1 @ [DismissAll, Console l m]\<rparr>"
proof -
  obtain r s1 where e: "end_live_activity E checkInId s = (r, s1)"
    by (cases "end_live_activity E checkInId s")
  have "r = Inr ()"
    using no_throw_unitD [OF end_live_activity_no_throw, of E checkInId s] e by simp
  moreover
  have "emits (\<lambda>ev. ev \<noteq> DismissAll \<and> \<not> is_Cancel ev) (end_live_activity E checkInId)"
    by (rule end_live_activity_emits) simp
  then obtain evs where "trace s1 = trace s @ evs"
      "list_all (\<lambda>ev. ev \<noteq> DismissAll \<and> \<not> is_Cancel ev) evs"
    unfolding emits_def using e by (metis snd_conv)
  moreover
  have "\<exists>l m. snd (endShiftReminder_checkin E checkInId nid s)
          = s1\<lparr>ext := snd (dismissAllNotificationsAsync E (ext s1)),
               trace := trace s1 @ [DismissAll, Console l m]\<rparr>"
    unfolding endShiftReminder_checkin_def using e \<open>r = Inr ()\<close>
    by (auto simp: io_defs split: prod.splits sum.splits)
  ultimately show ?thesis using e by blast
qed

text \<open>
  C7, as amended. \<open>endShiftReminder\<close> of the check-in module issues exactly one
  \<open>dismissAllNotificationsAsync()\<close> call on every path, whatever became of the
  Live Activity, and cancels no scheduled notification. The call takes no
  argument: the world after the function is the provider's dismiss-all applied
  to the world left by the Live Activity part, and off iOS the whole function
  does not depend on \<open>checkInId\<close> (nor on the unused \<open>notificationId\<close>) at all. The
  dismiss is therefore not restricted to the notifications of the given
  subject.
\<close>

theorem broad_dismiss_is_unfiltered:
  "filter (\<lambda>ev. ev = DismissAll) (new_events s (snd (endShiftReminder_checkin E checkInId nid s)))
     = [DismissAll]
   \<and> filter is_Cancel (new_events s (snd (endShiftReminder_checkin E checkInId nid s))) = []
   \<and> ext (snd (endShiftReminder_checkin E checkInId nid s))
       = snd (dismissAllNotificationsAsync E (ext (snd (end_live_activity E checkInId s))))
   \<and> (Platform_OS E \<noteq> ''ios'' \<longrightarrow>
        endShiftReminder_checkin E checkInId nid s = endShiftReminder_checkin E checkInId' nid' s)"
proof -
  obtain evs s1 l m where run: "end_live_activity E checkInId s = (Inr (), s1)"
      "trace s1 = trace s @ evs" "list_all (\<lambda>ev. ev \<noteq> DismissAll \<and> \<not> is_Cancel ev) evs"
      "snd (endShiftReminder_checkin E checkInId nid s)
          = s1\<lparr>ext := snd (dismissAllNotificationsAsync E (ext s1)),
               trace := trace s1 @ [DismissAll, Console l m]\<rparr>"
    using endShiftReminder_checkin_run [of E checkInId s nid] by blast
  have f1: "filter (\<lambda>ev. ev = DismissAll) evs = []" and f2: "filter is_Cancel evs = []"
    using run(3) by (auto simp: list_all_iff filter_empty_conv)
  have ne: "new_events s (snd (endShiftReminder_checkin E checkInId nid s))
        = evs @ [DismissAll, Console l m]"
    using run by (simp add: new_events_def)
  have indep: "Platform_OS E \<noteq> ''ios'' \<longrightarrow>
        endShiftReminder_checkin E checkInId nid s = endShiftReminder_checkin E checkInId' nid' s"
    by (simp add: endShiftReminder_checkin_def end_live_activity_other_platform)
  from f1 f2 ne run indep show ?thesis by simp
qed

theorem broad_dismiss_is_unfiltered_witness:
  "Platform_OS device \<noteq> ''ios''
   \<and> endShiftReminder_checkin device ''checkin-7'' None (initial two_in_tray)
       = endShiftReminder_checkin device ''checkin-8'' (Some ''n1'') (initial two_in_tray)
   \<and> new_events (initial two_in_tray)
        (snd (endShiftReminder_checkin device ''checkin-7'' None (initial two_in_tray)))
       = [DismissAll, Console Log ''Notifications dismissed'']"
  using broad_dismiss_is_unfiltered [of "initial two_in_tray" device "''checkin-7''" None
      "''checkin-8''" "Some ''n1''"]
  by (simp add: endShiftReminder_checkin_def end_live_activity_def run_defs)

text \<open>
  C7 as stated fails: with the reminders of two check-ins in the tray, ending
  the first one on the reference device leaves the tray empty; the
  notification of the other check-in is dismissed as well.
\<close>

theorem broad_dismiss_counterexample:
  "reminder_of ''n1'' ''checkInId'' ''checkin-8'' \<in> set (presented two_in_tray)
   \<and> data_field (reminder_of ''n1'' ''checkInId'' ''checkin-8'') ''checkInId'' = JStr ''checkin-8''
   \<and> presented (ext (snd (endShiftReminder_checkin device ''checkin-7'' None (initial two_in_tray)))) = []"
  by (simp add: endShiftReminder_checkin_def end_live_activity_def run_defs two_in_tray_def
      reminder_of_def data_field_def)

section \<open>Cancelling a shift reminder\<close>

lemma cancel_each_run:
  assumes ok: "\<forall>i w. \<not> isl (fst (cancelScheduledNotificationAsync E i w))"
  shows "fst (cancel_each E ns s) = Inr ()
     \<and> trace (snd (cancel_each E ns s)) = trace s @ map (\<lambda>n. CancelScheduled (notif_identifier n)) ns"
proof (induction ns arbitrary: s)
  case Nil
  show ?case by (simp add: io_return_def)
next
  case (Cons n ns)
  obtain r w' where c: "cancelScheduledNotificationAsync E (notif_identifier n) (ext s) = (r, w')"
    by (cases "cancelScheduledNotificationAsync E (notif_identifier n) (ext s)")
  from ok have "\<not> isl (fst (cancelScheduledNotificationAsync E (notif_identifier n) (ext s)))"
    by blast
  with c have r: "r = Inr ()" by (cases r) simp_all
  let ?s1 = "s\<lparr>ext := w', trace := trace s @ [CancelScheduled (notif_identifier n)]\<rparr>"
  have "cancel_each E (n # ns) s = cancel_each E ns ?s1"
    using c r by (simp add: io_bind_def call_def)
  with Cons.IH [of ?s1] show ?case by simp
qed

lemma dismiss_live_activity_no_throw: "no_throw (dismiss_live_activity E sid ty)"
  unfolding dismiss_live_activity_def
  by (intro no_throw_if no_throw_try_catch no_throw_bind no_throw_console no_throw_return)

lemma dismiss_live_activity_emits:
  "emits (\<lambda>ev. ev \<noteq> GetAllScheduled \<and> \<not> is_Cancel ev) (dismiss_live_activity E sid ty)"
  unfolding dismiss_live_activity_def dismiss_attempt_def getActivityModule_def Let_def
  by (intro emits_intros) simp_all

lemma dismiss_live_activity_result:
  "fst (dismiss_live_activity E sid ty s) = Inr (Some r) \<Longrightarrow>
     r = \<lparr>success = True, message = ''Shift reminder cancelled via Live Activity''\<rparr>"
  unfolding dismiss_live_activity_def dismiss_attempt_def Let_def
  by (auto simp: io_defs split: prod.splits sum.splits option.splits if_splits)

lemma dismiss_live_activity_other_platform:
  "Platform_OS E \<noteq> ''ios'' \<Longrightarrow> dismiss_live_activity E sid ty s = (Inr None, s)"
  by (simp add: dismiss_live_activity_def io_return_def)

lemma cancel_early_return:
  assumes "fst (dismiss_live_activity E sid ty s) = Inr (Some r)"
  shows "fst (cancelShiftReminder E sid ty s) = Inr r
     \<and> filter (\<lambda>ev. ev = GetAllScheduled \<or> is_Cancel ev)
          (new_events s (snd (cancelShiftReminder E sid ty s))) = []"
proof -
  obtain s1 where d: "dismiss_live_activity E sid ty s = (Inr (Some r), s1)"
    using assms by (cases "dismiss_live_activity E sid ty s") simp
  have c: "cancelShiftReminder E sid ty s = (Inr r, s1)"
    using d by (simp add: cancelShiftReminder_def io_defs)
  have "list_all (\<lambda>ev. ev \<noteq> GetAllScheduled \<and> \<not> is_Cancel ev) (new_events s s1)"
    using emits_new_events [OF dismiss_live_activity_emits, of s E sid ty] d by simp
  then have "filter (\<lambda>ev. ev = GetAllScheduled \<or> is_Cancel ev) (new_events s s1) = []"
    by (auto simp: list_all_iff filter_empty_conv)
  with c show ?thesis by simp
qed

lemma cancel_fallthrough:
  assumes none: "fst (dismiss_live_activity E sid ty s) = Inr None"
    and listing: "fst (getAllScheduledNotificationsAsync E (ext (snd (dismiss_live_activity E sid ty s)))) = Inr ns"
    and ok: "relevant sid ns = [] \<or> (\<forall>i w. \<not> isl (fst (cancelScheduledNotificationAsync E i w)))"
  shows "fst (cancelShiftReminder E sid ty s)
       = Inr \<lparr>success = True,
              message = ''Shift reminder cancelled ('' @ toString (int (length (relevant sid ns)))
                        @ '' notifications removed)''\<rparr>
     \<and> filter is_Cancel (new_events s (snd (cancelShiftReminder E sid ty s)))
       = map (\<lambda>n. CancelScheduled (notif_identifier n)) (relevant sid ns)"
proof -
  obtain s1 where d: "dismiss_live_activity E sid ty s = (Inr None, s1)"
    using none by (cases "dismiss_live_activity E sid ty s") simp
  obtain w2 where l: "getAllScheduledNotificationsAsync E (ext s1) = (Inr ns, w2)"
    using listing d by (cases "getAllScheduledNotificationsAsync E (ext s1)") simp
  let ?s2 = "s1\<lparr>ext := w2, trace := trace s1 @ [GetAllScheduled]\<rparr>"
  have ce: "fst (cancel_each E (relevant sid ns) ?s2) = Inr ()
     \<and> trace (snd (cancel_each E (relevant sid ns) ?s2))
        = trace ?s2 @ map (\<lambda>n. CancelScheduled (notif_identifier n)) (relevant sid ns)"
    using ok
  proof
    assume "relevant sid ns = []"
    then show ?thesis by (simp add: io_return_def)
  next
    assume "\<forall>i w. \<not> isl (fst (cancelScheduledNotificationAsync E i w))"
    then show ?thesis by (rule cancel_each_run)
  qed
  obtain s3 where c3: "cancel_each E (relevant sid ns) ?s2 = (Inr (), s3)"
    using ce by (cases "cancel_each E (relevant sid ns) ?s2") simp
  have res: "cancelShiftReminder E sid ty s
     = (Inr \<lparr>success = True,
              message = ''Shift reminder cancelled ('' @ toString (int (length (relevant sid ns)))
                        @ '' notifications removed)''\<rparr>,
        s3\<lparr>trace := trace s3 @ [Console Log ''Cancelled notifications for shift'']\<rparr>)"
    using d l c3 by (simp add: cancelShiftReminder_def cancel_notifications_def io_defs)
  have "list_all (\<lambda>ev. ev \<noteq> GetAllScheduled \<and> \<not> is_Cancel ev) (new_events s s1)"
    using emits_new_events [OF dismiss_live_activity_emits, of s E sid ty] d by simp
  then have f: "filter is_Cancel (new_events s s1) = []"
    by (auto simp: list_all_iff filter_empty_conv)
  obtain evs where evs: "trace s1 = trace s @ evs"
    using dismiss_live_activity_emits [of E sid ty] d unfolding emits_def by (metis snd_conv)
  with f have f': "filter is_Cancel evs = []" by (simp add: new_events_def)
  have "trace s3 = trace s @ evs @ [GetAllScheduled]
          @ map (\<lambda>n. CancelScheduled (notif_identifier n)) (relevant sid ns)"
    using ce c3 evs by simp
  then have "new_events s (snd (cancelShiftReminder E sid ty s))
      = evs @ [GetAllScheduled] @ map (\<lambda>n. CancelScheduled (notif_identifier n)) (relevant sid ns)
          @ [Console Log ''Cancelled notifications for shift'']"
    using res by (simp add: new_events_def)
  then have "filter is_Cancel (new_events s (snd (cancelShiftReminder E sid ty s)))
      = map (\<lambda>n. CancelScheduled (notif_identifier n)) (relevant sid ns)"
    using f' by (simp add: filter_map comp_def)
  with res show ?thesis by simp
qed

text \<open>
  C9, as amended. The notifications \<open>cancelShiftReminder\<close> selects from the
  listing are exactly those whose payload \<open>shiftId\<close> is the given one. Off iOS
  the Live Activity dismissal is skipped. When the dismissal did not return
  (skipped, function absent, or thrown and swallowed) and the listing succeeds:
  if no listed notification carries the shift id, no cancel call is issued and
  the result is a success with 0 notifications removed; and if the provider's
  cancel calls succeed, the cancel calls issued are exactly those for the
  selected notifications, in listing order, and the result is a success. When
  the Live Activity dismissal succeeds, the function returns that success at
  once, without listing or cancelling any scheduled notification.
\<close>

theorem cancel_by_payload_shiftId:
  "(\<forall>n. n \<in> set (relevant sid ns) \<longleftrightarrow> n \<in> set ns \<and> data_field n ''shiftId'' = JStr sid)
   \<and> (Platform_OS E \<noteq> ''ios'' \<longrightarrow> dismiss_live_activity E sid ty s = (Inr None, s))
   \<and> (fst (dismiss_live_activity E sid ty s) = Inr None
      \<and> fst (getAllScheduledNotificationsAsync E (ext (snd (dismiss_live_activity E sid ty s)))) = Inr ns
      \<and> relevant sid ns = []
      \<longrightarrow> fst (cancelShiftReminder E sid ty s)
            = Inr \<lparr>success = True,
                   message = ''Shift reminder cancelled (0 notifications removed)''\<rparr>
          \<and> filter is_Cancel (new_events s (snd (cancelShiftReminder E sid ty s))) = [])
   \<and> (fst (dismiss_live_activity E sid ty s) = Inr None
      \<and> fst (getAllScheduledNotificationsAsync E (ext (snd (dismiss_live_activity E sid ty s)))) = Inr ns
      \<and> (\<forall>i w. \<not> isl (fst (cancelScheduledNotificationAsync E i w)))
      \<longrightarrow> fst (cancelShiftReminder E sid ty s)
            = Inr \<lparr>success = True,
                   message = ''Shift reminder cancelled ('' @ toString (int (length (relevant sid ns)))
                             @ '' notifications removed)''\<rparr>
          \<and> filter is_Cancel (new_events s (snd (cancelShiftReminder E sid ty s)))
            = map (\<lambda>n. CancelScheduled (notif_identifier n)) (relevant sid ns))
   \<and> (fst (dismiss_live_activity E sid ty s) = Inr (Some r)
      \<longrightarrow> r = \<lparr>success = True, message = ''Shift reminder cancelled via Live Activity''\<rparr>
          \<and> fst (cancelShiftReminder E sid ty s) = Inr r
          \<and> filter (\<lambda>ev. ev = GetAllScheduled \<or> is_Cancel ev)
               (new_events s (snd (cancelShiftReminder E sid ty s))) = [])"
proof -
  have a: "\<forall>n. n \<in> set (relevant sid ns) \<longleftrightarrow> n \<in> set ns \<and> data_field n ''shiftId'' = JStr sid"
    by (auto simp: relevant_def)
  have b: "Platform_OS E \<noteq> ''ios'' \<longrightarrow> dismiss_live_activity E sid ty s = (Inr None, s)"
    by (simp add: dismiss_live_activity_other_platform)
  have c: "fst (dismiss_live_activity E sid ty s) = Inr None
      \<and> fst (getAllScheduledNotificationsAsync E (ext (snd (dismiss_live_activity E sid ty s)))) = Inr ns
      \<and> relevant sid ns = []
      \<longrightarrow> fst (cancelShiftReminder E sid ty s)
            = Inr \<lparr>success = True,
                   message = ''Shift reminder cancelled (0 notifications removed)''\<rparr>
          \<and> filter is_Cancel (new_events s (snd (cancelShiftReminder E sid ty s))) = []"
  proof
    assume h: "fst (dismiss_live_activity E sid ty s) = Inr None
      \<and> fst (getAllScheduledNotificationsAsync E (ext (snd (dismiss_live_activity E sid ty s)))) = Inr ns
      \<and> relevant sid ns = []"
    then have "relevant sid ns = [] \<or> (\<forall>i w. \<not> isl (fst (cancelScheduledNotificationAsync E i w)))"
      by simp
    from cancel_fallthrough [OF _ _ this, of ty s] h
    show "fst (cancelShiftReminder E sid ty s)
            = Inr \<lparr>success = True,
                   message = ''Shift reminder cancelled (0 notifications removed)''\<rparr>
          \<and> filter is_Cancel (new_events s (snd (cancelShiftReminder E sid ty s))) = []"
      by (simp add: toString_def show_nat.simps digit_char_def)
  qed
  have d: "fst (dismiss_live_activity E sid ty s) = Inr None
      \<and> fst (getAllScheduledNotificationsAsync E (ext (snd (dismiss_live_activity E sid ty s)))) = Inr ns
      \<and> (\<forall>i w. \<not> isl (fst (cancelScheduledNotificationAsync E i w)))
      \<longrightarrow> fst (cancelShiftReminder E sid ty s)
            = Inr \<lparr>success = True,
                   message = ''Shift reminder cancelled ('' @ toString (int (length (relevant sid ns)))
                             @ '' notifications removed)''\<rparr>
          \<and> filter is_Cancel (new_events s (snd (cancelShiftReminder E sid ty s)))
            = map (\<lambda>n. CancelScheduled (notif_identifier n)) (relevant sid ns)"
    using cancel_fallthrough [of E sid ty s ns] by blast
  have e: "fst (dismiss_live_activity E sid ty s) = Inr (Some r)
      \<longrightarrow> r = \<lparr>success = True, message = ''Shift reminder cancelled via Live Activity''\<rparr>
          \<and> fst (cancelShiftReminder E sid ty s) = Inr r
          \<and> filter (\<lambda>ev. ev = GetAllScheduled \<or> is_Cancel ev)
               (new_events s (snd (cancelShiftReminder E sid ty s))) = []"
    using cancel_early_return [of E sid ty s r] dismiss_live_activity_result [of E sid ty s r]
    by blast
  from a b c d e show ?thesis by blast
qed

lemmas cancel_run_defs = cancelShiftReminder_def cancel_notifications_def dismiss_live_activity_def
  dismiss_attempt_def getActivityModule_def relevant_def data_field_def reminder_of_def

theorem cancel_by_payload_shiftId_witness:
  "Platform_OS device \<noteq> ''ios''
   \<and> fst (dismiss_live_activity device ''shift-42'' Start (initial two_scheduled)) = Inr None
   \<and> fst (getAllScheduledNotificationsAsync device
            (ext (snd (dismiss_live_activity device ''shift-42'' Start (initial two_scheduled)))))
       = Inr (scheduled two_scheduled)
   \<and> (\<forall>i w. \<not> isl (fst (cancelScheduledNotificationAsync device i w)))
   \<and> relevant ''shift-42'' (scheduled two_scheduled) = [reminder_of ''n0'' ''shiftId'' ''shift-42'']
   \<and> fst (cancelShiftReminder device ''shift-42'' Start (initial two_scheduled))
       = Inr \<lparr>success = True, message = ''Shift reminder cancelled (1 notifications removed)''\<rparr>
   \<and> filter is_Cancel (new_events (initial two_scheduled)
        (snd (cancelShiftReminder device ''shift-42'' Start (initial two_scheduled))))
       = [CancelScheduled ''n0'']
   \<and> relevant ''shift-99'' (scheduled two_scheduled) = []
   \<and> fst (cancelShiftReminder device ''shift-99'' Start (initial two_scheduled))
       = Inr \<lparr>success = True, message = ''Shift reminder cancelled (0 notifications removed)''\<rparr>
   \<and> filter is_Cancel (new_events (initial two_scheduled)
        (snd (cancelShiftReminder device ''shift-99'' Start (initial two_scheduled)))) = []
   \<and> fst (dismiss_live_activity iphone_working_activity ''shift-42'' Start (initial one_scheduled))
       = Inr (Some \<lparr>success = True, message = ''Shift reminder cancelled via Live Activity''\<rparr>)
   \<and> fst (cancelShiftReminder iphone_working_activity ''shift-42'' Start (initial one_scheduled))
       = Inr \<lparr>success = True, message = ''Shift reminder cancelled via Live Activity''\<rparr>"
  using cancel_by_payload_shiftId [of "''shift-42''" "scheduled two_scheduled" device Start
      "initial two_scheduled" "\<lparr>success = True, message = ''Shift reminder cancelled via Live Activity''\<rparr>"]
    cancel_by_payload_shiftId [of "''shift-99''" "scheduled two_scheduled" device Start
      "initial two_scheduled" "\<lparr>success = True, message = ''Shift reminder cancelled via Live Activity''\<rparr>"]
    cancel_by_payload_shiftId [of "''shift-42''" "scheduled one_scheduled" iphone_working_activity Start
      "initial one_scheduled" "\<lparr>success = True, message = ''Shift reminder cancelled via Live Activity''\<rparr>"]
  by (simp add: dismiss_live_activity_def dismiss_attempt_def getActivityModule_def relevant_def
      data_field_def reminder_of_def iphone_working_activity_def working_module_def
      two_scheduled_def one_scheduled_def toString_def run_defs Let_def)

text \<open>
  C9 as stated fails on the Live Activity path: on an iPhone whose activity
  module resolves \<open>dismissActivity\<close>, cancelling the shift whose notification is
  scheduled reports success and leaves that notification scheduled.
\<close>

theorem cancel_leaves_scheduled_counterexample:
  "data_field (reminder_of ''n0'' ''shiftId'' ''shift-42'') ''shiftId'' = JStr ''shift-42''
   \<and> scheduled (ext (initial one_scheduled)) = [reminder_of ''n0'' ''shiftId'' ''shift-42'']
   \<and> fst (cancelShiftReminder iphone_working_activity ''shift-42'' Start (initial one_scheduled))
       = Inr \<lparr>success = True, message = ''Shift reminder cancelled via Live Activity''\<rparr>
   \<and> new_events (initial one_scheduled)
        (snd (cancelShiftReminder iphone_working_activity ''shift-42'' Start (initial one_scheduled)))
       = [Import ''expo-activity'', DismissActivity ''shift-start-shift-42'',
          Console Log ''Live Activity dismissed:'']
   \<and> scheduled (ext (snd (cancelShiftReminder iphone_working_activity ''shift-42'' Start
                            (initial one_scheduled))))
       = [reminder_of ''n0'' ''shiftId'' ''shift-42'']"
  by (simp add: cancel_run_defs iphone_working_activity_def working_module_def one_scheduled_def
      run_defs Let_def)

section \<open>Starting a reminder: the fallback to a notification\<close>

lemma load_LiveActivity_import_fails:
  "LiveActivity s = None \<Longrightarrow> isl (fst (import_expo_live_activity E (ext s))) \<Longrightarrow>
     isl (fst (checkin_start_attempt E checkInId sd s))"
  by (auto simp: checkin_start_attempt_def load_LiveActivity_def io_defs isl_def
      split: prod.splits sum.splits)

lemma getActivityModule_import_fails:
  "Platform_OS E = ''ios'' \<Longrightarrow> isl (fst (import_expo_activity E (ext s))) \<Longrightarrow>
     fst (getActivityModule E s) = Inr None"
  by (auto simp: getActivityModule_def io_defs isl_def split: prod.splits sum.splits)

lemma shift_start_attempt_import_fails:
  "Platform_OS E = ''ios'' \<Longrightarrow> isl (fst (import_expo_activity E (ext s))) \<Longrightarrow>
     fst (shift_start_attempt E d s) = Inr None"
  by (auto simp: shift_start_attempt_def getActivityModule_def io_defs isl_def
      split: prod.splits sum.splits)

lemma checkin_fallback:
  assumes ios: "Platform_OS E = ''ios''"
    and fails: "isl (fst (checkin_start_attempt E checkInId sd s))
                \<or> fst (checkin_start_attempt E checkInId sd s) = Inr None"
  shows "fst (startShiftReminder_checkin E checkInId sd s) =
     (case fst (scheduleNotificationAsync E (checkin_content checkInId sd) None
                  (ext (snd (checkin_start_attempt E checkInId sd s)))) of
        Inr nid \<Rightarrow> Inr \<lparr>h_id = nid, h_type = ''notification''\<rparr>
      | Inl e \<Rightarrow> Inl (JsError ''Could not start shift reminder''))"
proof -
  obtain r s1 where a: "checkin_start_attempt E checkInId sd s = (r, s1)"
    by (cases "checkin_start_attempt E checkInId sd s")
  with fails have "isl r \<or> r = Inr None" by simp
  then show ?thesis
    unfolding startShiftReminder_checkin_def using ios a
    by (cases r) (auto simp: io_defs split: prod.splits sum.splits)
qed

lemma shift_fallback:
  assumes ios: "Platform_OS E = ''ios''"
    and conf: "\<not> isl (fst (configureNotifications_shift E None s))"
    and fails: "isl (fst (shift_start_attempt E d (snd (configureNotifications_shift E None s))))
                \<or> fst (shift_start_attempt E d (snd (configureNotifications_shift E None s))) = Inr None"
  shows "fst (startShiftReminder_shift E d s) =
     (let w = ext (snd (shift_start_attempt E d (snd (configureNotifications_shift E None s)))) in
      case fst (scheduleNotificationAsync E (start_content d)
                  (Some (triggerSeconds (startTime d) (Date_now E w))) w) of
        Inr nid \<Rightarrow> Inr \<lparr>success = True, message = ''Shift reminder scheduled via notification'',
                        activityId = None, notificationId = Some nid\<rparr>
      | Inl e \<Rightarrow> Inr \<lparr>success = False,
                      message = ''Failed to start shift reminder: '' @ message_or_unknown e,
                      activityId = None, notificationId = None\<rparr>)"
proof -
  from conf obtain u s0 where c: "configureNotifications_shift E None s = (Inr u, s0)"
    by (rule not_isl_fstE)
  obtain r s1 where a: "shift_start_attempt E d s0 = (r, s1)"
    by (cases "shift_start_attempt E d s0")
  with fails c have "isl r \<or> r = Inr None" by simp
  then show ?thesis
    unfolding startShiftReminder_shift_def using ios a c
    by (cases r) (auto simp: io_defs Let_def split: prod.splits sum.splits)
qed

lemma startNativeLiveActivity_no_throw: "no_throw (startNativeLiveActivity E attributes st)"
  by (auto simp: no_throw_def startNativeLiveActivity_def io_defs split: prod.splits)

lemma transaction_unavailable:
  assumes "\<not> probe_value (browser E)"
  shows "fst (startLiveActivity E attributes st s) =
     (case fst (sendTransactionNotification E (transaction_payload attributes st) True
                  (snd (isLiveActivitySupported E s))) of
        Inr nid \<Rightarrow> Inr \<lparr>h_id = nid, h_type = ''notification''\<rparr>
      | Inl e \<Rightarrow> Inl (ActivityError ''Failed to start Live Activity or send notification''
                         (message_or_string e)))"
  unfolding startLiveActivity_def using assms
  by (simp add: probe_run io_bind_def io_return_def io_throw_def try_catch_def console_def
      split: prod.splits sum.splits)

lemma transaction_available:
  assumes "probe_value (browser E)"
  shows "\<exists>aid. fst (startLiveActivity E attributes st s) = Inr \<lparr>h_id = aid, h_type = ''liveActivity''\<rparr>"
proof -
  let ?s1 = "snd (isLiveActivitySupported E s)"
  obtain aid s2 where n: "startNativeLiveActivity E attributes st ?s1 = (Inr aid, s2)"
    using no_throwD [OF startNativeLiveActivity_no_throw, of E attributes st ?s1]
    by (cases "startNativeLiveActivity E attributes st ?s1") auto
  have "fst (startLiveActivity E attributes st s) = Inr \<lparr>h_id = aid, h_type = ''liveActivity''\<rparr>"
    unfolding startLiveActivity_def using assms n
    by (simp add: probe_run io_bind_def io_return_def try_catch_def split: if_splits)
  then show ?thesis by blast
qed

lemmas start_run_defs = checkin_start_attempt_def load_LiveActivity_def shift_start_attempt_def
  getActivityModule_def configureNotifications_shift_def defaultConfig_def toISOString_def
  probe_run probe_value_simps startNativeLiveActivity_def toString_def
  stn_True stn_False retry_state_def send_attempt_def

text \<open>
  C1. In the check-in and the shift module, when the Live Activity attempt
  throws (the import, the conversion of the time, the start call itself:
  whatever the inner \<open>try\<close> throws) or finds no module to start with, and the
  schedule call that follows succeeds with the identifier \<open>nid\<close>, the start
  function returns normally with that notification: \<open>{type: 'notification',
  id: nid}\<close> from the check-in module, \<open>{success: true, notificationId: nid,
  message: 'Shift reminder scheduled via notification'}\<close> from the shift
  module. A failed import is such a case in both: it makes the check-in
  attempt throw, and the shift module's \<open>getActivityModule\<close> swallows it and
  hands back no module. In the transaction module the native start cannot
  throw (it only logs and makes up an identifier): when the probe says the
  activity is unavailable and the notification is sent with identifier \<open>nid\<close>,
  \<open>startLiveActivity\<close> returns \<open>{type: 'notification', id: nid}\<close>, and when the
  probe says it is available, it returns a live activity. The failure of the
  activity path is only logged.
\<close>

theorem activity_failure_falls_back:
  "(Platform_OS E = ''ios''
      \<and> (isl (fst (checkin_start_attempt E checkInId sd s))
          \<or> fst (checkin_start_attempt E checkInId sd s) = Inr None)
      \<and> fst (scheduleNotificationAsync E (checkin_content checkInId sd) None
                (ext (snd (checkin_start_attempt E checkInId sd s)))) = Inr nid
      \<longrightarrow> fst (startShiftReminder_checkin E checkInId sd s)
            = Inr \<lparr>h_id = nid, h_type = ''notification''\<rparr>)
   \<and> (LiveActivity s = None \<and> isl (fst (import_expo_live_activity E (ext s)))
      \<longrightarrow> isl (fst (checkin_start_attempt E checkInId sd s)))
   \<and> (Platform_OS E = ''ios'' \<and> \<not> isl (fst (configureNotifications_shift E None s))
      \<and> (isl (fst (shift_start_attempt E d (snd (configureNotifications_shift E None s))))
          \<or> fst (shift_start_attempt E d (snd (configureNotifications_shift E None s))) = Inr None)
      \<and> (let w = ext (snd (shift_start_attempt E d (snd (configureNotifications_shift E None s)))) in
          fst (scheduleNotificationAsync E (start_content d)
                 (Some (triggerSeconds (startTime d) (Date_now E w))) w)) = Inr nid
      \<longrightarrow> fst (startShiftReminder_shift E d s)
            = Inr \<lparr>success = True, message = ''Shift reminder scheduled via notification'',
                   activityId = None, notificationId = Some nid\<rparr>)
   \<and> (Platform_OS E = ''ios'' \<and> isl (fst (import_expo_activity E (ext s)))
      \<longrightarrow> fst (shift_start_attempt E d s) = Inr None)
   \<and> (\<not> probe_value (browser E)
      \<and> fst (sendTransactionNotification E (transaction_payload attributes st) True
                (snd (isLiveActivitySupported E s))) = Inr nid
      \<longrightarrow> fst (startLiveActivity E attributes st s)
            = Inr \<lparr>h_id = nid, h_type = ''notification''\<rparr>)
   \<and> (probe_value (browser E)
      \<longrightarrow> (\<exists>aid. fst (startLiveActivity E attributes st s)
                   = Inr \<lparr>h_id = aid, h_type = ''liveActivity''\<rparr>))"
  using transaction_available [of E attributes st s]
  by (simp add: checkin_fallback shift_fallback transaction_unavailable Let_def
      load_LiveActivity_import_fails shift_start_attempt_import_fails)

theorem activity_failure_falls_back_witness:
  "Platform_OS iphone_expo_go = ''ios''
   \<and> LiveActivity (initial idle) = None
   \<and> isl (fst (import_expo_live_activity iphone_expo_go (ext (initial idle))))
   \<and> isl (fst (checkin_start_attempt iphone_expo_go ''checkin-7'' None (initial idle)))
   \<and> fst (startShiftReminder_checkin iphone_expo_go ''checkin-7'' None (initial idle))
       = Inr \<lparr>h_id = ''notification-0'', h_type = ''notification''\<rparr>
   \<and> \<not> isl (fst (configureNotifications_shift iphone_failing_activity None (initial idle)))
   \<and> isl (fst (shift_start_attempt iphone_failing_activity shift0
                 (snd (configureNotifications_shift iphone_failing_activity None (initial idle)))))
   \<and> fst (startShiftReminder_shift iphone_failing_activity shift0 (initial idle))
       = Inr \<lparr>success = True, message = ''Shift reminder scheduled via notification'',
              activityId = None, notificationId = Some ''notification-0''\<rparr>
   \<and> isl (fst (import_expo_activity iphone_expo_go (ext (initial idle))))
   \<and> fst (shift_start_attempt iphone_expo_go shift0 (initial idle)) = Inr None
   \<and> fst (startShiftReminder_shift iphone_expo_go shift0 (initial idle))
       = Inr \<lparr>success = True, message = ''Shift reminder scheduled via notification'',
              activityId = None, notificationId = Some ''notification-0''\<rparr>
   \<and> \<not> probe_value (browser device)
   \<and> fst (startLiveActivity device attributes0 state0 (initial idle))
       = Inr \<lparr>h_id = ''notification-0'', h_type = ''notification''\<rparr>
   \<and> probe_value (browser iphone_expo_go)
   \<and> fst (startLiveActivity iphone_expo_go attributes0 state0 (initial idle))
       = Inr \<lparr>h_id = ''activity_1700000000000_k3j9x1q0z'', h_type = ''liveActivity''\<rparr>"
  using activity_failure_falls_back [where E = iphone_expo_go and checkInId = "''checkin-7''"
      and sd = None and s = "initial idle" and nid = "''notification-0''" and d = shift0
      and attributes = attributes0 and st = state0]
    activity_failure_falls_back [where E = iphone_failing_activity and checkInId = "''checkin-7''"
      and sd = None and s = "initial idle" and nid = "''notification-0''" and d = shift0
      and attributes = attributes0 and st = state0]
    activity_failure_falls_back [where E = device and checkInId = "''checkin-7''"
      and sd = None and s = "initial idle" and nid = "''notification-0''" and d = shift0
      and attributes = attributes0 and st = state0]
  by (simp add: iphone_expo_go_def iphone_failing_activity_def
      unavailable_module_def start_run_defs startLiveActivity_def shift0_def
      run_defs Let_def)

section \<open>Starting a reminder: both paths fail\<close>

lemma startShiftReminder_shift_no_throw: "no_throw (startShiftReminder_shift E d)"
  unfolding startShiftReminder_shift_def
  by (intro no_throw_try_catch no_throw_bind no_throw_console no_throw_return)

lemma startShiftReminder_shift_failure_unbound:
  "fst (startShiftReminder_shift E d s) = Inr r \<Longrightarrow> \<not> success r \<Longrightarrow>
     activityId r = None \<and> notificationId r = None"
  unfolding startShiftReminder_shift_def shift_start_attempt_def
  by (auto simp: io_defs split: prod.splits sum.splits option.splits if_splits)

text \<open>
  C4, as amended. When the activity path gives nothing (the attempt throws or
  finds no module; in the transaction module, the probe says unavailable) and
  the notification fails, the shift module's \<open>startShiftReminder\<close> returns
  \<open>success: false\<close> with neither an \<open>activityId\<close> nor a \<open>notificationId\<close> (it never
  throws, and a result with \<open>success: false\<close> never carries a handle);
  \<open>startLiveActivity\<close> throws an \<open>ActivityError\<close> and the check-in module's
  \<open>startShiftReminder\<close> throws \<open>Error('Could not start shift reminder')\<close>, so no
  handle is returned either. When its probe says available, \<open>startLiveActivity\<close>
  returns a live activity: its native start cannot fail.
\<close>

theorem both_paths_fail:
  "(\<exists>r. fst (startShiftReminder_shift E d s) = Inr r
        \<and> (\<not> success r \<longrightarrow> activityId r = None \<and> notificationId r = None))
   \<and> (Platform_OS E = ''ios'' \<and> \<not> isl (fst (configureNotifications_shift E None s))
      \<and> (isl (fst (shift_start_attempt E d (snd (configureNotifications_shift E None s))))
          \<or> fst (shift_start_attempt E d (snd (configureNotifications_shift E None s))) = Inr None)
      \<and> (let w = ext (snd (shift_start_attempt E d (snd (configureNotifications_shift E None s)))) in
          fst (scheduleNotificationAsync E (start_content d)
                 (Some (triggerSeconds (startTime d) (Date_now E w))) w)) = Inl e
      \<longrightarrow> fst (startShiftReminder_shift E d s)
            = Inr \<lparr>success = False,
                   message = ''Failed to start shift reminder: '' @ message_or_unknown e,
                   activityId = None, notificationId = None\<rparr>)
   \<and> (\<not> probe_value (browser E)
      \<and> fst (sendTransactionNotification E (transaction_payload attributes st) True
                (snd (isLiveActivitySupported E s))) = Inl e
      \<longrightarrow> fst (startLiveActivity E attributes st s)
            = Inl (ActivityError ''Failed to start Live Activity or send notification''
                     (message_or_string e)))
   \<and> (probe_value (browser E)
      \<longrightarrow> (\<exists>aid. fst (startLiveActivity E attributes st s)
                   = Inr \<lparr>h_id = aid, h_type = ''liveActivity''\<rparr>))
   \<and> (Platform_OS E = ''ios''
      \<and> (isl (fst (checkin_start_attempt E checkInId sd s))
          \<or> fst (checkin_start_attempt E checkInId sd s) = Inr None)
      \<and> isl (fst (scheduleNotificationAsync E (checkin_content checkInId sd) None
                (ext (snd (checkin_start_attempt E checkInId sd s)))))
      \<longrightarrow> fst (startShiftReminder_checkin E checkInId sd s)
            = Inl (JsError ''Could not start shift reminder''))"
proof -
  obtain r where r: "fst (startShiftReminder_shift E d s) = Inr r"
    using no_throwD [OF startShiftReminder_shift_no_throw] by blast
  then have "\<not> success r \<longrightarrow> activityId r = None \<and> notificationId r = None"
    using startShiftReminder_shift_failure_unbound by blast
  with r have first: "\<exists>r. fst (startShiftReminder_shift E d s) = Inr r
        \<and> (\<not> success r \<longrightarrow> activityId r = None \<and> notificationId r = None)"
    by blast
  have last: "Platform_OS E = ''ios''
      \<and> (isl (fst (checkin_start_attempt E checkInId sd s))
          \<or> fst (checkin_start_attempt E checkInId sd s) = Inr None)
      \<and> isl (fst (scheduleNotificationAsync E (checkin_content checkInId sd) None
                (ext (snd (checkin_start_attempt E checkInId sd s)))))
      \<longrightarrow> fst (startShiftReminder_checkin E checkInId sd s)
            = Inl (JsError ''Could not start shift reminder'')"
    by (auto simp: checkin_fallback isl_def)
  from first last transaction_available [of E attributes st s] show ?thesis
    by (simp add: shift_fallback transaction_unavailable Let_def)
qed

theorem both_paths_fail_witness:
  "Platform_OS iphone_all_failing = ''ios''
   \<and> \<not> isl (fst (configureNotifications_shift iphone_all_failing None (initial idle)))
   \<and> isl (fst (shift_start_attempt iphone_all_failing shift0
                 (snd (configureNotifications_shift iphone_all_failing None (initial idle)))))
   \<and> fst (startShiftReminder_shift iphone_all_failing shift0 (initial idle))
       = Inr \<lparr>success = False,
              message = ''Failed to start shift reminder: scheduler unavailable'',
              activityId = None, notificationId = None\<rparr>
   \<and> \<not> probe_value (browser device_schedule_fails)
   \<and> fst (sendTransactionNotification device_schedule_fails (transaction_payload attributes0 state0) True
            (snd (isLiveActivitySupported device_schedule_fails (initial idle))))
       = Inl (NotificationError ''Failed to send notification'' ''scheduler unavailable'')
   \<and> fst (startLiveActivity device_schedule_fails attributes0 state0 (initial idle))
       = Inl (ActivityError ''Failed to start Live Activity or send notification''
                ''Failed to send notification'')
   \<and> probe_value (browser iphone_all_failing)
   \<and> fst (startLiveActivity iphone_all_failing attributes0 state0 (initial idle))
       = Inr \<lparr>h_id = ''activity_1700000000000_k3j9x1q0z'', h_type = ''liveActivity''\<rparr>
   \<and> isl (fst (checkin_start_attempt iphone_all_failing ''checkin-7'' None (initial idle)))
   \<and> fst (startShiftReminder_checkin iphone_all_failing ''checkin-7'' None (initial idle))
       = Inl (JsError ''Could not start shift reminder'')"
  using both_paths_fail [where E = iphone_all_failing and d = shift0 and s = "initial idle"
      and e = "JsError ''scheduler unavailable''" and attributes = attributes0 and st = state0
      and checkInId = "''checkin-7''" and sd = None]
    both_paths_fail [where E = device_schedule_fails and d = shift0 and s = "initial idle"
      and e = "NotificationError ''Failed to send notification'' ''scheduler unavailable''"
      and attributes = attributes0 and st = state0 and checkInId = "''checkin-7''" and sd = None]
  by (simp add: iphone_all_failing_def iphone_failing_activity_def
      device_schedule_fails_def unavailable_module_def start_run_defs startLiveActivity_def
      shift0_def run_defs Let_def)

text \<open>
  C4 as stated fails: on an iPhone where the import of the activity module
  fails and every schedule call is rejected, the check-in module's
  \<open>startShiftReminder\<close> throws; and where the probe says unavailable and every
  schedule call is rejected, \<open>startLiveActivity\<close> throws. Neither returns
  \<open>success: false\<close>.
\<close>

theorem start_throws_counterexample:
  "isl (fst (checkin_start_attempt iphone_all_failing ''checkin-7'' None (initial idle)))
   \<and> isl (fst (scheduleNotificationAsync iphone_all_failing (checkin_content ''checkin-7'' None) None
              (ext (snd (checkin_start_attempt iphone_all_failing ''checkin-7'' None (initial idle))))))
   \<and> fst (startShiftReminder_checkin iphone_all_failing ''checkin-7'' None (initial idle))
       = Inl (JsError ''Could not start shift reminder'')
   \<and> fst (isLiveActivitySupported device_schedule_fails (initial idle)) = Inr False
   \<and> fst (startLiveActivity device_schedule_fails attributes0 state0 (initial idle))
       = Inl (ActivityError ''Failed to start Live Activity or send notification''
                ''Failed to send notification'')"
  by (simp add: startShiftReminder_checkin_def startLiveActivity_def iphone_all_failing_def
      iphone_failing_activity_def device_schedule_fails_def start_run_defs run_defs)

section \<open>The trigger delay of the notification fallback\<close>

text \<open>
  The shape of a run of the two reminder functions of the shift module: a
  configuration and an activity part that neither read the clock nor schedule,
  then nothing more, or one log line, or one reading of the clock followed at
  once by the schedule call with the delay computed from that reading.
\<close>

lemma fallback_shape:
  assumes conf: "emits Q CONF" and act: "emits Q ACT"
    and F: "F =
        try_catch
          (io_bind CONF (\<lambda>_.
           io_bind ACT (\<lambda>returned.
           case returned of
             Some r \<Rightarrow> io_return r
           | None \<Rightarrow>
               io_bind (now E) (\<lambda>n.
               io_bind (call (Schedule c (Some (g n))) (scheduleNotificationAsync E c (Some (g n)))) (\<lambda>nid.
               io_bind (console Log m1) (\<lambda>_.
               io_return (R nid)))))))
          (\<lambda>error. io_bind (console Err m2) (\<lambda>_. io_return (Rf error)))"
  shows "\<exists>pre. list_all Q pre \<and>
     (new_events s (snd (F s)) = pre
      \<or> (\<exists>l m. new_events s (snd (F s)) = pre @ [Console l m])
      \<or> (\<exists>w l m. new_events s (snd (F s))
           = pre @ [DateNow (Date_now E w), Schedule c (Some (g (Date_now E w))), Console l m]))"
proof -
  obtain r0 s0 where c0: "CONF s = (r0, s0)" by (cases "CONF s")
  from conf obtain e0 where e0: "trace s0 = trace s @ e0" "list_all Q e0"
    unfolding emits_def using c0 by (metis snd_conv)
  show ?thesis
  proof (cases r0)
    case (Inl err)
    have "new_events s (snd (F s)) = e0 @ [Console Err m2]"
      unfolding F using c0 Inl e0 by (simp add: io_defs)
    with e0 show ?thesis by blast
  next
    case (Inr u)
    obtain r1 s1 where c1: "ACT s0 = (r1, s1)" by (cases "ACT s0")
    from act obtain e1 where e1: "trace s1 = trace s0 @ e1" "list_all Q e1"
      unfolding emits_def using c1 by (metis snd_conv)
    have q: "list_all Q (e0 @ e1)" using e0 e1 by simp
    show ?thesis
    proof (cases r1)
      case (Inl err)
      have "new_events s (snd (F s)) = (e0 @ e1) @ [Console Err m2]"
        unfolding F using c0 c1 Inr Inl e0 e1 by (simp add: io_defs)
      with q show ?thesis by blast
    next
      case r1: (Inr returned)
      show ?thesis
      proof (cases returned)
        case (Some r)
        have "new_events s (snd (F s)) = e0 @ e1"
          unfolding F using c0 c1 Inr r1 Some e0 e1 by (simp add: io_defs)
        with q show ?thesis by blast
      next
        case None
        let ?n = "Date_now E (ext s1)"
        obtain r3 w3 where c3: "scheduleNotificationAsync E c (Some (g ?n)) (ext s1) = (r3, w3)"
          by (cases "scheduleNotificationAsync E c (Some (g ?n)) (ext s1)")
        have "\<exists>l m. new_events s (snd (F s))
                = (e0 @ e1) @ [DateNow ?n, Schedule c (Some (g ?n)), Console l m]"
          unfolding F using c0 c1 c3 Inr r1 None e0 e1 by (cases r3) (simp_all add: io_defs)
        with q show ?thesis by blast
      qed
    qed
  qed
qed

text \<open>What the shape says of the schedule calls and of the clock readings of a run.\<close>

lemma shape_schedule:
  assumes q: "list_all (\<lambda>ev. \<not> is_Schedule ev \<and> \<not> is_DateNow ev) pre"
    and shape: "evs = pre \<or> (\<exists>l m. evs = pre @ [Console l m])
      \<or> (\<exists>w l m. evs = pre @ [DateNow (Date_now E w), Schedule c (Some (g (Date_now E w))), Console l m])"
    and mem: "Schedule c' t \<in> set evs"
  shows "\<exists>w. filter is_DateNow evs = [DateNow (Date_now E w)] \<and> c' = c
            \<and> t = Some (g (Date_now E w))"
proof -
  have no: "Schedule c' t \<notin> set pre" "filter is_DateNow pre = []"
    using q by (auto simp: list_all_iff filter_empty_conv)
  from shape consider "evs = pre" | l m where "evs = pre @ [Console l m]"
    | w l m where "evs = pre @ [DateNow (Date_now E w), Schedule c (Some (g (Date_now E w))), Console l m]"
    by blast
  then show ?thesis
  proof cases
    case 1
    with mem no show ?thesis by simp
  next
    case 2
    with mem no show ?thesis by simp
  next
    case 3
    with mem no have "c' = c \<and> t = Some (g (Date_now E w))" by auto
    moreover from 3 no have "filter is_DateNow evs = [DateNow (Date_now E w)]" by simp
    ultimately show ?thesis by blast
  qed
qed

lemma startShiftReminder_shift_schedule:
  assumes "Schedule c t \<in> set (new_events s (snd (startShiftReminder_shift E d s)))"
  shows "\<exists>w. filter is_DateNow (new_events s (snd (startShiftReminder_shift E d s)))
               = [DateNow (Date_now E w)]
            \<and> c = start_content d \<and> t = Some (triggerSeconds (startTime d) (Date_now E w))"
proof -
  let ?Q = "\<lambda>ev. \<not> is_Schedule ev \<and> \<not> is_DateNow ev"
  have conf: "emits ?Q (configureNotifications_shift E None)"
    by (rule configureNotifications_shift_emits) simp_all
  have act: "emits ?Q (if Platform_OS E = ''ios'' then
             try_catch (shift_start_attempt E d)
               (\<lambda>liveActivityError.
                io_bind (console Warn ''Live Activity not available, falling back to notifications:'') (\<lambda>_.
                io_return None))
           else io_return None)"
    by (intro emits_intros shift_start_attempt_emits) simp_all
  obtain pre where "list_all ?Q pre"
    "new_events s (snd (startShiftReminder_shift E d s)) = pre
      \<or> (\<exists>l m. new_events s (snd (startShiftReminder_shift E d s)) = pre @ [Console l m])
      \<or> (\<exists>w l m. new_events s (snd (startShiftReminder_shift E d s))
           = pre @ [DateNow (Date_now E w),
                    Schedule (start_content d) (Some (triggerSeconds (startTime d) (Date_now E w))),
                    Console l m])"
    using fallback_shape [OF conf act startShiftReminder_shift_def, of s] by blast
  from shape_schedule [OF this assms] show ?thesis .
qed

lemma endShiftReminder_shift_schedule:
  assumes "Schedule c t \<in> set (new_events s (snd (endShiftReminder_shift E d s)))"
  shows "\<exists>w. filter is_DateNow (new_events s (snd (endShiftReminder_shift E d s)))
               = [DateNow (Date_now E w)]
            \<and> c = end_content d \<and> t = Some (triggerSeconds (endTime d) (Date_now E w))"
proof -
  let ?Q = "\<lambda>ev. \<not> is_Schedule ev \<and> \<not> is_DateNow ev"
  have conf: "emits ?Q (configureNotifications_shift E None)"
    by (rule configureNotifications_shift_emits) simp_all
  have act: "emits ?Q (if Platform_OS E = ''ios'' then
             try_catch (shift_end_attempt E d)
               (\<lambda>liveActivityError.
                io_bind (console Warn ''Live Activity update failed, falling back to notifications:'') (\<lambda>_.
                io_return None))
           else io_return None)"
    by (intro emits_intros shift_end_attempt_emits) simp_all
  obtain pre where "list_all ?Q pre"
    "new_events s (snd (endShiftReminder_shift E d s)) = pre
      \<or> (\<exists>l m. new_events s (snd (endShiftReminder_shift E d s)) = pre @ [Console l m])
      \<or> (\<exists>w l m. new_events s (snd (endShiftReminder_shift E d s))
           = pre @ [DateNow (Date_now E w),
                    Schedule (end_content d) (Some (triggerSeconds (endTime d) (Date_now E w))),
                    Console l m])"
    using fallback_shape [OF conf act endShiftReminder_shift_def, of s] by blast
  from shape_schedule [OF this assms] show ?thesis .
qed

lemma only_reading:
  "filter is_DateNow evs = [DateNow n'] \<Longrightarrow> DateNow n \<in> set evs \<Longrightarrow> n = n'"
proof -
  assume f: "filter is_DateNow evs = [DateNow n']" and m: "DateNow n \<in> set evs"
  from m have "DateNow n \<in> set (filter is_DateNow evs)" by simp
  with f show "n = n'" by simp
qed

text \<open>
  C3. The delay handed to the scheduler is
  \<open>max 1 (floor ((t - now) / 1000) - 900)\<close>, which is exactly 1 second as soon
  as \<open>t\<close> minus the 15 minutes of lead time minus \<open>now\<close> is at most 1 second (so
  for every \<open>t\<close> in the past). In a run of \<open>startShiftReminder\<close> or
  \<open>endShiftReminder\<close> of the shift module, a schedule call is preceded by the
  run's one reading of the clock, and the delay it passes is that formula at
  that reading: when the reminder time minus the lead time minus the clock as
  read in the run is at most 1 second, the delay passed to the scheduler is
  exactly 1.
\<close>

theorem trigger_delay_clamped:
  "(t0 - 900000 - n0 \<le> 1000 \<longrightarrow> triggerSeconds t0 n0 = 1)
   \<and> (\<forall>c t. Schedule c t \<in> set (new_events s (snd (startShiftReminder_shift E d s))) \<longrightarrow>
        (\<exists>w. filter is_DateNow (new_events s (snd (startShiftReminder_shift E d s)))
                = [DateNow (Date_now E w)]
             \<and> t = Some (triggerSeconds (startTime d) (Date_now E w))))
   \<and> (\<forall>n c t. DateNow n \<in> set (new_events s (snd (startShiftReminder_shift E d s)))
        \<and> Schedule c t \<in> set (new_events s (snd (startShiftReminder_shift E d s)))
        \<and> startTime d - 900000 - n \<le> 1000 \<longrightarrow> t = Some 1)
   \<and> (\<forall>c t. Schedule c t \<in> set (new_events s (snd (endShiftReminder_shift E d s))) \<longrightarrow>
        (\<exists>w. filter is_DateNow (new_events s (snd (endShiftReminder_shift E d s)))
                = [DateNow (Date_now E w)]
             \<and> t = Some (triggerSeconds (endTime d) (Date_now E w))))
   \<and> (\<forall>n c t. DateNow n \<in> set (new_events s (snd (endShiftReminder_shift E d s)))
        \<and> Schedule c t \<in> set (new_events s (snd (endShiftReminder_shift E d s)))
        \<and> endTime d - 900000 - n \<le> 1000 \<longrightarrow> t = Some 1)"
proof (intro conjI allI impI)
  assume "t0 - 900000 - n0 \<le> 1000"
  then show "triggerSeconds t0 n0 = 1" by (rule triggerSeconds_clamped)
next
  fix c t
  assume "Schedule c t \<in> set (new_events s (snd (startShiftReminder_shift E d s)))"
  from startShiftReminder_shift_schedule [OF this]
  show "\<exists>w. filter is_DateNow (new_events s (snd (startShiftReminder_shift E d s)))
                = [DateNow (Date_now E w)]
             \<and> t = Some (triggerSeconds (startTime d) (Date_now E w))"
    by blast
next
  fix n c t
  assume a: "DateNow n \<in> set (new_events s (snd (startShiftReminder_shift E d s)))
        \<and> Schedule c t \<in> set (new_events s (snd (startShiftReminder_shift E d s)))
        \<and> startTime d - 900000 - n \<le> 1000"
  then obtain w where w: "filter is_DateNow (new_events s (snd (startShiftReminder_shift E d s)))
               = [DateNow (Date_now E w)]" "t = Some (triggerSeconds (startTime d) (Date_now E w))"
    using startShiftReminder_shift_schedule [of c t s E d] by blast
  with a have "n = Date_now E w" using only_reading by blast
  with a w show "t = Some 1" by (simp add: triggerSeconds_clamped)
next
  fix c t
  assume "Schedule c t \<in> set (new_events s (snd (endShiftReminder_shift E d s)))"
  from endShiftReminder_shift_schedule [OF this]
  show "\<exists>w. filter is_DateNow (new_events s (snd (endShiftReminder_shift E d s)))
                = [DateNow (Date_now E w)]
             \<and> t = Some (triggerSeconds (endTime d) (Date_now E w))"
    by blast
next
  fix n c t
  assume a: "DateNow n \<in> set (new_events s (snd (endShiftReminder_shift E d s)))
        \<and> Schedule c t \<in> set (new_events s (snd (endShiftReminder_shift E d s)))
        \<and> endTime d - 900000 - n \<le> 1000"
  then obtain w where w: "filter is_DateNow (new_events s (snd (endShiftReminder_shift E d s)))
               = [DateNow (Date_now E w)]" "t = Some (triggerSeconds (endTime d) (Date_now E w))"
    using endShiftReminder_shift_schedule [of c t s E d] by blast
  with a have "n = Date_now E w" using only_reading by blast
  with a w show "t = Some 1" by (simp add: triggerSeconds_clamped)
qed

theorem trigger_delay_clamped_witness:
  "startTime late_shift - 900000 - 1700000005000 \<le> 1000
   \<and> \<not> startTime late_shift - 900000 - Date_now device (at_clock 0) \<le> 1000
   \<and> triggerSeconds (startTime late_shift) 1700000005000 = 1
   \<and> Date_now device (at_clock 5000) = 1700000005000
   \<and> new_events (initial (at_clock 5000))
        (snd (startShiftReminder_shift device late_shift (initial (at_clock 5000))))
       = [SetNotificationHandler, SetNotificationChannel ''shift-reminders'',
          SetNotificationChannel ''shift-alerts'', Console Log ''Notifications configured successfully'',
          DateNow 1700000005000, Schedule (start_content late_shift) (Some 1),
          Console Log ''Shift reminder notification scheduled:'']
   \<and> new_events (initial (at_clock 5000))
        (snd (endShiftReminder_shift device late_shift (initial (at_clock 5000))))
       = [SetNotificationHandler, SetNotificationChannel ''shift-reminders'',
          SetNotificationChannel ''shift-alerts'', Console Log ''Notifications configured successfully'',
          DateNow 1700000005000, Schedule (end_content late_shift) (Some 1),
          Console Log ''End shift reminder notification scheduled:'']"
  using trigger_delay_clamped [where ?t0.0 = "startTime late_shift" and ?n0.0 = 1700000005000
      and s = "initial (at_clock 5000)" and E = device and d = late_shift]
  by (simp add: startShiftReminder_shift_def endShiftReminder_shift_def
      configureNotifications_shift_def defaultConfig_def run_defs at_clock_def late_shift_def
      triggerSeconds_def Let_def)

section \<open>Tearing a reminder down\<close>











section \<open>Updating an activity\<close>









end
